theory Spec2Isabelle
  imports Main
begin

section \<open>Data model\<close>

text \<open>
  Modelled from the spec: the type \<open>APIError\<close>, which is declared outside the files
  under verification ("kind/code, human message, optional field-level validation errors,
  optional request-id for correlation"). It is the error carried by a response envelope.
\<close>

record APIError =
  Code :: int
  Type :: string
  Message :: string
  Errors :: "(string \<times> string) list"
  RequestID :: string

text \<open>
  Go's \<open>error\<close> interface, tagged by where the value comes from: a library call
  (\<open>url.Parse\<close>, \<open>json.Encode\<close>, \<open>query.Values\<close>, \<open>http.NewRequest\<close>, a
  \<open>RequestOption\<close>), \<open>client.Do\<close>, \<open>responseErr\<close>, \<open>Decode\<close>, the envelope's
  \<open>error\<close> field, or \<open>errors.New("missing result")\<close>.
\<close>

datatype error =
    LibError string
  | TransportError string
  | HTTPStatusError int string
  | DecodeError string
  | APIErr APIError
  | MissingResult

text \<open>
  A \<open>context.Context\<close>: the background context of \<open>http.NewRequest\<close>, or a context of
  the caller with a cancel function; the flag tells whether it has been cancelled.
\<close>

datatype Context = Background | Cancelable bool

type_synonym Header = "string \<rightharpoonup> string"

record Request =
  Method :: string
  URL :: string
  Body :: "string option"
  Header :: Header
  Ctx :: Context

record Response =
  StatusCode :: int
  RespBody :: string

datatype http_result = Failed string | Responded Response

text \<open>
  An \<open>http.Client\<close>: what \<open>Do\<close> returns for a request, given the requests that the
  client has been handed before.
\<close>

type_synonym Client = "Request list \<Rightarrow> Request \<Rightarrow> http_result"

record ParsedURL =
  Location :: string
  RawQuery :: string

definition URL_String :: "ParsedURL \<Rightarrow> string" where
  "URL_String u = Location u @ (if RawQuery u = [] then [] else ''?'' @ RawQuery u)"

text \<open>
  What the methods take from outside the files under verification: functions of Go's
  standard library, the package constant \<open>userAgent\<close> and the value that
  \<open>NewIdempotencyKey()\<close> returns in this call.
\<close>

record env =
  Sprintf :: "string \<Rightarrow> string list \<Rightarrow> string"
  url_Parse :: "string \<Rightarrow> string + ParsedURL"
  NewRequest_error :: "string \<Rightarrow> string \<Rightarrow> string option"
  CanonicalHeaderKey :: "string \<Rightarrow> string"
  DefaultClient :: Client
  userAgent :: string
  NewIdempotencyKey :: string

record requestOptions =
  retries :: int
  idempotencyKey :: string
  headers :: "(string \<times> string) list"

text \<open>
  \<open>headers\<close> is a Go map; the list holds its entries in the order in which
  \<open>range\<close> visits them. A \<open>RequestOption\<close> is a function \<open>func(*requestOptions) error\<close>:
  it returns its error and the options as it leaves them.
\<close>

type_synonym RequestOption = "requestOptions \<Rightarrow> error option \<times> requestOptions"

text \<open>The anonymous result struct of every method: the \<open>error\<close> key and the resource key.\<close>

record 'p envelope =
  Err :: "APIError option"
  Payload :: "'p option"

text \<open>
  \<open>json.NewDecoder(res.Body).Decode(&result)\<close>: from the body and the current value of
  \<open>result\<close>, the error of \<open>Decode\<close> and the value it leaves in \<open>result\<close>.
\<close>

type_synonym 'p decoder = "string \<Rightarrow> 'p envelope \<Rightarrow> string option \<times> 'p envelope"

record Block =
  Active :: bool
  BlockType :: string
  CreatedAt :: string
  Id :: string
  ReasonDescription :: string
  ReasonType :: string
  ResourceReference :: string
  UpdatedAt :: string

record Cursors =
  After :: string
  Before :: string

record ListMeta =
  Cursors :: Cursors
  Limit :: int

record BlockListResult =
  Blocks :: "Block list"
  Meta :: ListMeta

record BlockCreateParams =
  Active :: bool
  BlockType :: string
  ReasonDescription :: string
  ReasonType :: string
  ResourceReference :: string

record BlockListParams =
  After :: string
  Before :: string
  Block :: string
  BlockType :: string
  CreatedAt :: string
  Limit :: int
  ReasonType :: string
  UpdatedAt :: string

record BlockBlockByRefParams =
  Active :: bool
  ReasonDescription :: string
  ReasonType :: string
  ReferenceType :: string
  ReferenceValue :: string

text \<open>
  The elements of \<open>BlockBlockByRefResult.Blocks\<close> are an anonymous struct with the fields
  of \<open>Block\<close>.
\<close>

record BlockBlockByRefResult =
  Blocks :: "Block list"
  Meta :: ListMeta

record BlockService =
  endpoint :: string
  token :: string
  client :: "Client option"

record BlockListPagingIterator =
  cursor :: string
  response :: "BlockListResult option"
  params :: BlockListParams
  service :: BlockService

text \<open>
  The fields \<open>RequestHeaders\<close> and \<open>ResponseHeaders\<close> of a webhook are
  \<open>map[string]interface{}\<close>; \<open>'j\<close> is the type of the decoded JSON values.
\<close>

record 'j Webhook =
  CreatedAt :: string
  Id :: string
  IsTest :: bool
  RequestBody :: string
  RequestHeaders :: "(string \<times> 'j) list"
  ResponseBody :: string
  ResponseBodyTruncated :: bool
  ResponseCode :: int
  ResponseHeaders :: "(string \<times> 'j) list"
  ResponseHeadersContentTruncated :: bool
  ResponseHeadersCountTruncated :: bool
  Successful :: bool
  Url :: string

record WebhookCreatedAt =
  Gt :: string
  Gte :: string
  Lt :: string
  Lte :: string

record WebhookListParams =
  After :: string
  Before :: string
  CreatedAt :: WebhookCreatedAt
  IsTest :: bool
  Limit :: int
  Successful :: bool

record 'j WebhookListResult =
  Webhooks :: "'j Webhook list"
  Meta :: ListMeta

record WebhookService =
  endpoint :: string
  token :: string
  client :: "Client option"

record 'j WebhookListPagingIterator =
  cursor :: string
  response :: "'j WebhookListResult option"
  params :: WebhookListParams
  service :: WebhookService

section \<open>The shared helpers\<close>

text \<open>
  Modelled from the spec: the helper \<open>responseErr\<close>, which is not in the files under
  verification ("non-2xx HTTP status -- parsed for a structured API error if possible").
  The error carries the status and the body that the API error would be parsed from.
\<close>

definition responseErr :: "Response \<Rightarrow> error option" where
  "responseErr res =
     (if 200 \<le> StatusCode res \<and> StatusCode res < 300 then None
      else Some (HTTPStatusError (StatusCode res) (RespBody res)))"

text \<open>
  Modelled from the spec: the helper \<open>try\<close>, which is not in the files under
  verification ("each attempt performs the HTTP round trip; a transport-level error
  (connection failure) or an HTTP error status triggers a retry up to the limit; the
  last error is returned if all attempts are exhausted", and an API error decoded from
  the envelope is "not retried further by this layer"). An error of any other kind ends
  the call as well: only the two named kinds trigger a retry. A count of zero or less
  makes no attempt and returns no error.
\<close>

definition retryable :: "error \<Rightarrow> bool" where
  "retryable e = (case e of TransportError _ \<Rightarrow> True | HTTPStatusError _ _ \<Rightarrow> True | _ \<Rightarrow> False)"

fun try_loop :: "nat \<Rightarrow> ('s \<Rightarrow> error option \<times> 's) \<Rightarrow> 's \<Rightarrow> error option \<times> 's" where
  "try_loop 0 fn st = (None, st)"
| "try_loop (Suc n) fn st =
     (case fn st of
        (None, st') \<Rightarrow> (None, st')
      | (Some e, st') \<Rightarrow> if retryable e \<and> 0 < n then try_loop n fn st' else (Some e, st'))"

definition try_call :: "int \<Rightarrow> ('s \<Rightarrow> error option \<times> 's) \<Rightarrow> 's \<Rightarrow> error option \<times> 's" where
  "try_call count fn st = try_loop (nat count) fn st"

text \<open>\<open>req.Header.Set\<close> and \<open>req.Header.Get\<close>: both canonicalise the key.\<close>

definition Header_Set :: "env \<Rightarrow> string \<Rightarrow> string \<Rightarrow> Request \<Rightarrow> Request" where
  "Header_Set env k v req = req\<lparr>Header := (Header req)(CanonicalHeaderKey env k \<mapsto> v)\<rparr>"

definition Header_Get :: "env \<Rightarrow> Request \<Rightarrow> string \<Rightarrow> string option" where
  "Header_Get env req k = Header req (CanonicalHeaderKey env k)"

text \<open>\<open>req.WithContext(ctx)\<close> returns a copy of the request that carries \<open>ctx\<close>.\<close>

definition WithContext :: "Request \<Rightarrow> Context \<Rightarrow> Request" where
  "WithContext req ctx = req\<lparr>Ctx := ctx\<rparr>"

definition http_NewRequest :: "env \<Rightarrow> string \<Rightarrow> string \<Rightarrow> string option \<Rightarrow> error + Request" where
  "http_NewRequest env m u b =
     (case NewRequest_error env m u of
        Some msg \<Rightarrow> Inl (LibError msg)
      | None \<Rightarrow> Inr \<lparr>Method = m, URL = u, Body = b, Header = Map.empty, Ctx = Background\<rparr>)"

text \<open>The loop \<open>for _, opt := range opts\<close>, which returns at the first error.\<close>

fun apply_options :: "RequestOption list \<Rightarrow> requestOptions \<Rightarrow> error + requestOptions" where
  "apply_options [] ro = Inr ro"
| "apply_options (opt # opts) ro =
     (case opt ro of
        (Some e, ro') \<Rightarrow> Inl e
      | (None, ro') \<Rightarrow> apply_options opts ro')"

text \<open>The five \<open>Header.Set\<close> calls that every service method makes.\<close>

definition default_headers :: "env \<Rightarrow> string \<Rightarrow> Request \<Rightarrow> Request" where
  "default_headers env tok req =
     (let req = Header_Set env ''Authorization'' (''Bearer '' @ tok) req;
          req = Header_Set env ''GoCardless-Version'' ''2015-07-06'' req;
          req = Header_Set env ''GoCardless-Client-Library'' ''<no value>'' req;
          req = Header_Set env ''GoCardless-Client-Version'' ''1.0.0'' req;
          req = Header_Set env ''User-Agent'' (userAgent env) req
      in req)"

text \<open>The loop \<open>for key, value := range o.headers\<close>.\<close>

fun override_headers :: "env \<Rightarrow> (string \<times> string) list \<Rightarrow> Request \<Rightarrow> Request" where
  "override_headers env [] req = req"
| "override_headers env ((k, v) # hs) req = override_headers env hs (Header_Set env k v req)"

text \<open>
  The closure handed to \<open>try\<close>, the same in every method. Its state is the list of the
  requests handed to \<open>client.Do\<close> so far and the variable \<open>result\<close>.
\<close>

definition attempt ::
  "Client \<Rightarrow> 'p decoder \<Rightarrow> Request \<Rightarrow> Request list \<times> 'p envelope
     \<Rightarrow> error option \<times> Request list \<times> 'p envelope" where
  "attempt cl dec req st =
     (case st of (sent, result) \<Rightarrow>
        (case cl sent req of
           Failed msg \<Rightarrow> (Some (TransportError msg), sent @ [req], result)
         | Responded res \<Rightarrow>
             (case responseErr res of
                Some e \<Rightarrow> (Some e, sent @ [req], result)
              | None \<Rightarrow>
                  (case dec (RespBody res) result of
                     (Some msg, result') \<Rightarrow> (Some (DecodeError msg), sent @ [req], result')
                   | (None, result') \<Rightarrow>
                       (case Err result' of
                          Some e \<Rightarrow> (Some (APIErr e), sent @ [req], result')
                        | None \<Rightarrow> (None, sent @ [req], result'))))))"

text \<open>
  The choice of the client, the declaration of \<open>result\<close> and the call of \<open>try\<close>, the
  same in every method.
\<close>

definition choose_client :: "env \<Rightarrow> Client option \<Rightarrow> Client" where
  "choose_client env cl = (case cl of None \<Rightarrow> DefaultClient env | Some c \<Rightarrow> c)"

definition do_attempts ::
  "env \<Rightarrow> Client option \<Rightarrow> int \<Rightarrow> 'p decoder \<Rightarrow> Request \<Rightarrow> Request list
     \<Rightarrow> error option \<times> Request list \<times> 'p envelope" where
  "do_attempts env cl count dec req sent =
     try_call count (attempt (choose_client env cl) dec req)
       (sent, \<lparr>Err = None, Payload = None\<rparr>)"

text \<open>The end of every service method: the error of \<open>try\<close>, or the missing result.\<close>

definition result_or_missing ::
  "error option \<times> Request list \<times> 'p envelope \<Rightarrow> ('p option \<times> error option) \<times> Request list" where
  "result_or_missing r =
     (case r of
        (Some e, sent, result) \<Rightarrow> ((None, Some e), sent)
      | (None, sent, result) \<Rightarrow>
          (case Payload result of
             None \<Rightarrow> ((None, Some MissingResult), sent)
           | Some v \<Rightarrow> ((Some v, None), sent)))"

section \<open>BlockService\<close>

text \<open>
  Every method is given in two parts: \<open>_request\<close> is the method up to the choice of the
  client (the URL, the options, the body, the request and its headers), and the method
  itself hands that request to \<open>try\<close> and reads the result. \<open>json_Encode key p\<close> is
  \<open>json.NewEncoder(&buf).Encode(map[string]interface{}{key: p})\<close>: its error, or the
  bytes it writes. \<open>query_Values p\<close> is \<open>query.Values(p)\<close>: its error, or the string
  that \<open>v.Encode()\<close> gives. The result of \<open>req.WithContext(ctx)\<close> is not used by
  the methods.
\<close>

definition BlockService_Create_request ::
  "env \<Rightarrow> (string \<Rightarrow> BlockCreateParams \<Rightarrow> string + string) \<Rightarrow> Context \<Rightarrow> BlockService
     \<Rightarrow> BlockCreateParams \<Rightarrow> RequestOption list \<Rightarrow> error + Request \<times> requestOptions" where
  "BlockService_Create_request env json_Encode ctx s p opts =
     (case url_Parse env (Sprintf env (BlockService.endpoint s @ ''/blocks'') []) of
        Inl msg \<Rightarrow> Inl (LibError msg)
      | Inr uri \<Rightarrow>
     (case apply_options opts \<lparr>retries = 3, idempotencyKey = [], headers = []\<rparr> of
        Inl e \<Rightarrow> Inl e
      | Inr ro0 \<Rightarrow>
     (let ro = (if idempotencyKey ro0 = [] then ro0\<lparr>idempotencyKey := NewIdempotencyKey env\<rparr>
                else ro0)
      in
     (case json_Encode ''blocks'' p of
        Inl msg \<Rightarrow> Inl (LibError msg)
      | Inr buf \<Rightarrow>
     (case http_NewRequest env ''POST'' (URL_String uri) (Some buf) of
        Inl e \<Rightarrow> Inl e
      | Inr req \<Rightarrow>
     (let unused = WithContext req ctx;
          req = default_headers env (BlockService.token s) req;
          req = Header_Set env ''Content-Type'' ''application/json'' req;
          req = Header_Set env ''Idempotency-Key'' (idempotencyKey ro) req;
          req = override_headers env (headers ro) req
      in Inr (req, ro)))))))"

definition BlockService_Create ::
  "env \<Rightarrow> (string \<Rightarrow> BlockCreateParams \<Rightarrow> string + string) \<Rightarrow> Block decoder \<Rightarrow> Context
     \<Rightarrow> BlockService \<Rightarrow> BlockCreateParams \<Rightarrow> RequestOption list \<Rightarrow> Request list
     \<Rightarrow> (Block option \<times> error option) \<times> Request list" where
  "BlockService_Create env json_Encode dec ctx s p opts sent =
     (case BlockService_Create_request env json_Encode ctx s p opts of
        Inl e \<Rightarrow> ((None, Some e), sent)
      | Inr (req, ro) \<Rightarrow>
          result_or_missing (do_attempts env (BlockService.client s) (retries ro) dec req sent))"

definition BlockService_Get_request ::
  "env \<Rightarrow> Context \<Rightarrow> BlockService \<Rightarrow> string \<Rightarrow> RequestOption list
     \<Rightarrow> error + Request \<times> requestOptions" where
  "BlockService_Get_request env ctx s identity opts =
     (case url_Parse env (Sprintf env (BlockService.endpoint s @ ''/blocks/%v'') [identity]) of
        Inl msg \<Rightarrow> Inl (LibError msg)
      | Inr uri \<Rightarrow>
     (case apply_options opts \<lparr>retries = 3, idempotencyKey = [], headers = []\<rparr> of
        Inl e \<Rightarrow> Inl e
      | Inr ro \<Rightarrow>
     (case http_NewRequest env ''GET'' (URL_String uri) None of
        Inl e \<Rightarrow> Inl e
      | Inr req \<Rightarrow>
     (let unused = WithContext req ctx;
          req = default_headers env (BlockService.token s) req;
          req = override_headers env (headers ro) req
      in Inr (req, ro)))))"

definition BlockService_Get ::
  "env \<Rightarrow> Block decoder \<Rightarrow> Context \<Rightarrow> BlockService \<Rightarrow> string \<Rightarrow> RequestOption list
     \<Rightarrow> Request list \<Rightarrow> (Block option \<times> error option) \<times> Request list" where
  "BlockService_Get env dec ctx s identity opts sent =
     (case BlockService_Get_request env ctx s identity opts of
        Inl e \<Rightarrow> ((None, Some e), sent)
      | Inr (req, ro) \<Rightarrow>
          result_or_missing (do_attempts env (BlockService.client s) (retries ro) dec req sent))"

definition BlockService_List_request ::
  "env \<Rightarrow> (BlockListParams \<Rightarrow> string + string) \<Rightarrow> Context \<Rightarrow> BlockService
     \<Rightarrow> BlockListParams \<Rightarrow> RequestOption list \<Rightarrow> error + Request \<times> requestOptions" where
  "BlockService_List_request env query_Values ctx s p opts =
     (case url_Parse env (Sprintf env (BlockService.endpoint s @ ''/blocks'') []) of
        Inl msg \<Rightarrow> Inl (LibError msg)
      | Inr uri0 \<Rightarrow>
     (case apply_options opts \<lparr>retries = 3, idempotencyKey = [], headers = []\<rparr> of
        Inl e \<Rightarrow> Inl e
      | Inr ro \<Rightarrow>
     (case query_Values p of
        Inl msg \<Rightarrow> Inl (LibError msg)
      | Inr v \<Rightarrow>
     (let uri = uri0\<lparr>RawQuery := v\<rparr> in
     (case http_NewRequest env ''GET'' (URL_String uri) None of
        Inl e \<Rightarrow> Inl e
      | Inr req \<Rightarrow>
     (let unused = WithContext req ctx;
          req = default_headers env (BlockService.token s) req;
          req = override_headers env (headers ro) req
      in Inr (req, ro)))))))"

definition BlockService_List ::
  "env \<Rightarrow> (BlockListParams \<Rightarrow> string + string) \<Rightarrow> BlockListResult decoder \<Rightarrow> Context
     \<Rightarrow> BlockService \<Rightarrow> BlockListParams \<Rightarrow> RequestOption list \<Rightarrow> Request list
     \<Rightarrow> (BlockListResult option \<times> error option) \<times> Request list" where
  "BlockService_List env query_Values dec ctx s p opts sent =
     (case BlockService_List_request env query_Values ctx s p opts of
        Inl e \<Rightarrow> ((None, Some e), sent)
      | Inr (req, ro) \<Rightarrow>
          result_or_missing (do_attempts env (BlockService.client s) (retries ro) dec req sent))"

definition BlockListPagingIterator_Next :: "BlockListPagingIterator \<Rightarrow> bool" where
  "BlockListPagingIterator_Next c =
     (if BlockListPagingIterator.cursor c = [] \<and> BlockListPagingIterator.response c \<noteq> None
      then False else True)"

definition BlockListPagingIterator_Value_request ::
  "env \<Rightarrow> (BlockListParams \<Rightarrow> string + string) \<Rightarrow> Context \<Rightarrow> BlockListPagingIterator
     \<Rightarrow> error + Request" where
  "BlockListPagingIterator_Value_request env query_Values ctx c =
     (let s = BlockListPagingIterator.service c;
          p = (BlockListPagingIterator.params c)
                \<lparr>BlockListParams.After := BlockListPagingIterator.cursor c\<rparr>
      in
     (case url_Parse env (Sprintf env (BlockService.endpoint s @ ''/blocks'') []) of
        Inl msg \<Rightarrow> Inl (LibError msg)
      | Inr uri0 \<Rightarrow>
     (case query_Values p of
        Inl msg \<Rightarrow> Inl (LibError msg)
      | Inr v \<Rightarrow>
     (let uri = uri0\<lparr>RawQuery := v\<rparr> in
     (case http_NewRequest env ''GET'' (URL_String uri) None of
        Inl e \<Rightarrow> Inl e
      | Inr req \<Rightarrow>
     (let unused = WithContext req ctx;
          req = Header_Set env ''Authorization'' (''Bearer '' @ BlockService.token s) req;
          req = Header_Set env ''GoCardless-Version'' ''2015-07-06'' req
      in Inr req))))))"

text \<open>
  \<open>Value\<close> returns its pair, the iterator as it leaves it and the requests handed to the
  client.
\<close>

definition BlockListPagingIterator_Value ::
  "env \<Rightarrow> (BlockListParams \<Rightarrow> string + string) \<Rightarrow> BlockListResult decoder \<Rightarrow> Context
     \<Rightarrow> BlockListPagingIterator \<Rightarrow> Request list
     \<Rightarrow> (BlockListResult option \<times> error option) \<times> BlockListPagingIterator \<times> Request list" where
  "BlockListPagingIterator_Value env query_Values dec ctx c sent =
     (if \<not> BlockListPagingIterator_Next c
      then ((BlockListPagingIterator.response c, None), c, sent)
      else
     (case BlockListPagingIterator_Value_request env query_Values ctx c of
        Inl e \<Rightarrow> ((None, Some e), c, sent)
      | Inr req \<Rightarrow>
     (case do_attempts env (BlockService.client (BlockListPagingIterator.service c)) 3 dec req sent of
        (Some e, sent', result) \<Rightarrow> ((None, Some e), c, sent')
      | (None, sent', result) \<Rightarrow>
          (case Payload result of
             None \<Rightarrow> ((None, Some MissingResult), c, sent')
           | Some page \<Rightarrow>
               ((Some page, None),
                c\<lparr>BlockListPagingIterator.response := Some page,
                  BlockListPagingIterator.cursor := Cursors.After (Cursors (BlockListResult.Meta page))\<rparr>,
                sent')))))"

definition BlockService_All ::
  "Context \<Rightarrow> BlockService \<Rightarrow> BlockListParams \<Rightarrow> BlockListPagingIterator" where
  "BlockService_All ctx s p =
     \<lparr>BlockListPagingIterator.cursor = [], BlockListPagingIterator.response = None,
      BlockListPagingIterator.params = p, BlockListPagingIterator.service = s\<rparr>"

definition BlockService_Disable_request ::
  "env \<Rightarrow> Context \<Rightarrow> BlockService \<Rightarrow> string \<Rightarrow> RequestOption list
     \<Rightarrow> error + Request \<times> requestOptions" where
  "BlockService_Disable_request env ctx s identity opts =
     (case url_Parse env
             (Sprintf env (BlockService.endpoint s @ ''/blocks/%v/actions/disable'') [identity]) of
        Inl msg \<Rightarrow> Inl (LibError msg)
      | Inr uri \<Rightarrow>
     (case apply_options opts \<lparr>retries = 3, idempotencyKey = [], headers = []\<rparr> of
        Inl e \<Rightarrow> Inl e
      | Inr ro0 \<Rightarrow>
     (let ro = (if idempotencyKey ro0 = [] then ro0\<lparr>idempotencyKey := NewIdempotencyKey env\<rparr>
                else ro0)
      in
     (case http_NewRequest env ''POST'' (URL_String uri) None of
        Inl e \<Rightarrow> Inl e
      | Inr req \<Rightarrow>
     (let unused = WithContext req ctx;
          req = default_headers env (BlockService.token s) req;
          req = Header_Set env ''Content-Type'' ''application/json'' req;
          req = Header_Set env ''Idempotency-Key'' (idempotencyKey ro) req;
          req = override_headers env (headers ro) req
      in Inr (req, ro))))))"

definition BlockService_Disable ::
  "env \<Rightarrow> Block decoder \<Rightarrow> Context \<Rightarrow> BlockService \<Rightarrow> string \<Rightarrow> RequestOption list
     \<Rightarrow> Request list \<Rightarrow> (Block option \<times> error option) \<times> Request list" where
  "BlockService_Disable env dec ctx s identity opts sent =
     (case BlockService_Disable_request env ctx s identity opts of
        Inl e \<Rightarrow> ((None, Some e), sent)
      | Inr (req, ro) \<Rightarrow>
          result_or_missing (do_attempts env (BlockService.client s) (retries ro) dec req sent))"

definition BlockService_Enable_request ::
  "env \<Rightarrow> Context \<Rightarrow> BlockService \<Rightarrow> string \<Rightarrow> RequestOption list
     \<Rightarrow> error + Request \<times> requestOptions" where
  "BlockService_Enable_request env ctx s identity opts =
     (case url_Parse env
             (Sprintf env (BlockService.endpoint s @ ''/blocks/%v/actions/enable'') [identity]) of
        Inl msg \<Rightarrow> Inl (LibError msg)
      | Inr uri \<Rightarrow>
     (case apply_options opts \<lparr>retries = 3, idempotencyKey = [], headers = []\<rparr> of
        Inl e \<Rightarrow> Inl e
      | Inr ro0 \<Rightarrow>
     (let ro = (if idempotencyKey ro0 = [] then ro0\<lparr>idempotencyKey := NewIdempotencyKey env\<rparr>
                else ro0)
      in
     (case http_NewRequest env ''POST'' (URL_String uri) None of
        Inl e \<Rightarrow> Inl e
      | Inr req \<Rightarrow>
     (let unused = WithContext req ctx;
          req = default_headers env (BlockService.token s) req;
          req = Header_Set env ''Content-Type'' ''application/json'' req;
          req = Header_Set env ''Idempotency-Key'' (idempotencyKey ro) req;
          req = override_headers env (headers ro) req
      in Inr (req, ro))))))"

definition BlockService_Enable ::
  "env \<Rightarrow> Block decoder \<Rightarrow> Context \<Rightarrow> BlockService \<Rightarrow> string \<Rightarrow> RequestOption list
     \<Rightarrow> Request list \<Rightarrow> (Block option \<times> error option) \<times> Request list" where
  "BlockService_Enable env dec ctx s identity opts sent =
     (case BlockService_Enable_request env ctx s identity opts of
        Inl e \<Rightarrow> ((None, Some e), sent)
      | Inr (req, ro) \<Rightarrow>
          result_or_missing (do_attempts env (BlockService.client s) (retries ro) dec req sent))"

definition BlockService_BlockByRef_request ::
  "env \<Rightarrow> (string \<Rightarrow> BlockBlockByRefParams \<Rightarrow> string + string) \<Rightarrow> Context \<Rightarrow> BlockService
     \<Rightarrow> BlockBlockByRefParams \<Rightarrow> RequestOption list \<Rightarrow> error + Request \<times> requestOptions" where
  "BlockService_BlockByRef_request env json_Encode ctx s p opts =
     (case url_Parse env (Sprintf env (BlockService.endpoint s @ ''/block_by_ref'') []) of
        Inl msg \<Rightarrow> Inl (LibError msg)
      | Inr uri \<Rightarrow>
     (case apply_options opts \<lparr>retries = 3, idempotencyKey = [], headers = []\<rparr> of
        Inl e \<Rightarrow> Inl e
      | Inr ro0 \<Rightarrow>
     (let ro = (if idempotencyKey ro0 = [] then ro0\<lparr>idempotencyKey := NewIdempotencyKey env\<rparr>
                else ro0)
      in
     (case json_Encode ''data'' p of
        Inl msg \<Rightarrow> Inl (LibError msg)
      | Inr buf \<Rightarrow>
     (case http_NewRequest env ''POST'' (URL_String uri) (Some buf) of
        Inl e \<Rightarrow> Inl e
      | Inr req \<Rightarrow>
     (let unused = WithContext req ctx;
          req = default_headers env (BlockService.token s) req;
          req = Header_Set env ''Content-Type'' ''application/json'' req;
          req = Header_Set env ''Idempotency-Key'' (idempotencyKey ro) req;
          req = override_headers env (headers ro) req
      in Inr (req, ro)))))))"

definition BlockService_BlockByRef ::
  "env \<Rightarrow> (string \<Rightarrow> BlockBlockByRefParams \<Rightarrow> string + string) \<Rightarrow> BlockBlockByRefResult decoder
     \<Rightarrow> Context \<Rightarrow> BlockService \<Rightarrow> BlockBlockByRefParams \<Rightarrow> RequestOption list \<Rightarrow> Request list
     \<Rightarrow> (BlockBlockByRefResult option \<times> error option) \<times> Request list" where
  "BlockService_BlockByRef env json_Encode dec ctx s p opts sent =
     (case BlockService_BlockByRef_request env json_Encode ctx s p opts of
        Inl e \<Rightarrow> ((None, Some e), sent)
      | Inr (req, ro) \<Rightarrow>
          result_or_missing (do_attempts env (BlockService.client s) (retries ro) dec req sent))"

section \<open>WebhookService\<close>

definition WebhookService_List_request ::
  "env \<Rightarrow> (WebhookListParams \<Rightarrow> string + string) \<Rightarrow> Context \<Rightarrow> WebhookService
     \<Rightarrow> WebhookListParams \<Rightarrow> RequestOption list \<Rightarrow> error + Request \<times> requestOptions" where
  "WebhookService_List_request env query_Values ctx s p opts =
     (case url_Parse env (Sprintf env (WebhookService.endpoint s @ ''/webhooks'') []) of
        Inl msg \<Rightarrow> Inl (LibError msg)
      | Inr uri0 \<Rightarrow>
     (case apply_options opts \<lparr>retries = 3, idempotencyKey = [], headers = []\<rparr> of
        Inl e \<Rightarrow> Inl e
      | Inr ro \<Rightarrow>
     (case query_Values p of
        Inl msg \<Rightarrow> Inl (LibError msg)
      | Inr v \<Rightarrow>
     (let uri = uri0\<lparr>RawQuery := v\<rparr> in
     (case http_NewRequest env ''GET'' (URL_String uri) None of
        Inl e \<Rightarrow> Inl e
      | Inr req \<Rightarrow>
     (let unused = WithContext req ctx;
          req = default_headers env (WebhookService.token s) req;
          req = override_headers env (headers ro) req
      in Inr (req, ro)))))))"

definition WebhookService_List ::
  "env \<Rightarrow> (WebhookListParams \<Rightarrow> string + string) \<Rightarrow> 'j WebhookListResult decoder \<Rightarrow> Context
     \<Rightarrow> WebhookService \<Rightarrow> WebhookListParams \<Rightarrow> RequestOption list \<Rightarrow> Request list
     \<Rightarrow> ('j WebhookListResult option \<times> error option) \<times> Request list" where
  "WebhookService_List env query_Values dec ctx s p opts sent =
     (case WebhookService_List_request env query_Values ctx s p opts of
        Inl e \<Rightarrow> ((None, Some e), sent)
      | Inr (req, ro) \<Rightarrow>
          result_or_missing (do_attempts env (WebhookService.client s) (retries ro) dec req sent))"

definition WebhookListPagingIterator_Next :: "'j WebhookListPagingIterator \<Rightarrow> bool" where
  "WebhookListPagingIterator_Next c =
     (if WebhookListPagingIterator.cursor c = [] \<and> WebhookListPagingIterator.response c \<noteq> None
      then False else True)"

definition WebhookListPagingIterator_Value_request ::
  "env \<Rightarrow> (WebhookListParams \<Rightarrow> string + string) \<Rightarrow> Context \<Rightarrow> 'j WebhookListPagingIterator
     \<Rightarrow> error + Request" where
  "WebhookListPagingIterator_Value_request env query_Values ctx c =
     (let s = WebhookListPagingIterator.service c;
          p = (WebhookListPagingIterator.params c)
                \<lparr>WebhookListParams.After := WebhookListPagingIterator.cursor c\<rparr>
      in
     (case url_Parse env (Sprintf env (WebhookService.endpoint s @ ''/webhooks'') []) of
        Inl msg \<Rightarrow> Inl (LibError msg)
      | Inr uri0 \<Rightarrow>
     (case query_Values p of
        Inl msg \<Rightarrow> Inl (LibError msg)
      | Inr v \<Rightarrow>
     (let uri = uri0\<lparr>RawQuery := v\<rparr> in
     (case http_NewRequest env ''GET'' (URL_String uri) None of
        Inl e \<Rightarrow> Inl e
      | Inr req \<Rightarrow>
     (let unused = WithContext req ctx;
          req = Header_Set env ''Authorization'' (''Bearer '' @ WebhookService.token s) req;
          req = Header_Set env ''GoCardless-Version'' ''2015-07-06'' req
      in Inr req))))))"

definition WebhookListPagingIterator_Value ::
  "env \<Rightarrow> (WebhookListParams \<Rightarrow> string + string) \<Rightarrow> 'j WebhookListResult decoder \<Rightarrow> Context
     \<Rightarrow> 'j WebhookListPagingIterator \<Rightarrow> Request list
     \<Rightarrow> ('j WebhookListResult option \<times> error option) \<times> 'j WebhookListPagingIterator
         \<times> Request list" where
  "WebhookListPagingIterator_Value env query_Values dec ctx c sent =
     (if \<not> WebhookListPagingIterator_Next c
      then ((WebhookListPagingIterator.response c, None), c, sent)
      else
     (case WebhookListPagingIterator_Value_request env query_Values ctx c of
        Inl e \<Rightarrow> ((None, Some e), c, sent)
      | Inr req \<Rightarrow>
     (case do_attempts env (WebhookService.client (WebhookListPagingIterator.service c)) 3 dec req
             sent of
        (Some e, sent', result) \<Rightarrow> ((None, Some e), c, sent')
      | (None, sent', result) \<Rightarrow>
          (case Payload result of
             None \<Rightarrow> ((None, Some MissingResult), c, sent')
           | Some page \<Rightarrow>
               ((Some page, None),
                c\<lparr>WebhookListPagingIterator.response := Some page,
                  WebhookListPagingIterator.cursor :=
                    Cursors.After (Cursors (WebhookListResult.Meta page))\<rparr>,
                sent')))))"

definition WebhookService_All ::
  "Context \<Rightarrow> WebhookService \<Rightarrow> WebhookListParams \<Rightarrow> 'j WebhookListPagingIterator" where
  "WebhookService_All ctx s p =
     \<lparr>WebhookListPagingIterator.cursor = [], WebhookListPagingIterator.response = None,
      WebhookListPagingIterator.params = p, WebhookListPagingIterator.service = s\<rparr>"

definition WebhookService_Get_request ::
  "env \<Rightarrow> Context \<Rightarrow> WebhookService \<Rightarrow> string \<Rightarrow> RequestOption list
     \<Rightarrow> error + Request \<times> requestOptions" where
  "WebhookService_Get_request env ctx s identity opts =
     (case url_Parse env (Sprintf env (WebhookService.endpoint s @ ''/webhooks/%v'') [identity]) of
        Inl msg \<Rightarrow> Inl (LibError msg)
      | Inr uri \<Rightarrow>
     (case apply_options opts \<lparr>retries = 3, idempotencyKey = [], headers = []\<rparr> of
        Inl e \<Rightarrow> Inl e
      | Inr ro \<Rightarrow>
     (case http_NewRequest env ''GET'' (URL_String uri) None of
        Inl e \<Rightarrow> Inl e
      | Inr req \<Rightarrow>
     (let unused = WithContext req ctx;
          req = default_headers env (WebhookService.token s) req;
          req = override_headers env (headers ro) req
      in Inr (req, ro)))))"

definition WebhookService_Get ::
  "env \<Rightarrow> 'j Webhook decoder \<Rightarrow> Context \<Rightarrow> WebhookService \<Rightarrow> string \<Rightarrow> RequestOption list
     \<Rightarrow> Request list \<Rightarrow> ('j Webhook option \<times> error option) \<times> Request list" where
  "WebhookService_Get env dec ctx s identity opts sent =
     (case WebhookService_Get_request env ctx s identity opts of
        Inl e \<Rightarrow> ((None, Some e), sent)
      | Inr (req, ro) \<Rightarrow>
          result_or_missing (do_attempts env (WebhookService.client s) (retries ro) dec req sent))"

definition WebhookService_Retry_request ::
  "env \<Rightarrow> Context \<Rightarrow> WebhookService \<Rightarrow> string \<Rightarrow> RequestOption list
     \<Rightarrow> error + Request \<times> requestOptions" where
  "WebhookService_Retry_request env ctx s identity opts =
     (case url_Parse env
             (Sprintf env (WebhookService.endpoint s @ ''/webhooks/%v/actions/retry'') [identity]) of
        Inl msg \<Rightarrow> Inl (LibError msg)
      | Inr uri \<Rightarrow>
     (case apply_options opts \<lparr>retries = 3, idempotencyKey = [], headers = []\<rparr> of
        Inl e \<Rightarrow> Inl e
      | Inr ro0 \<Rightarrow>
     (let ro = (if idempotencyKey ro0 = [] then ro0\<lparr>idempotencyKey := NewIdempotencyKey env\<rparr>
                else ro0)
      in
     (case http_NewRequest env ''POST'' (URL_String uri) None of
        Inl e \<Rightarrow> Inl e
      | Inr req \<Rightarrow>
     (let unused = WithContext req ctx;
          req = default_headers env (WebhookService.token s) req;
          req = Header_Set env ''Content-Type'' ''application/json'' req;
          req = Header_Set env ''Idempotency-Key'' (idempotencyKey ro) req;
          req = override_headers env (headers ro) req
      in Inr (req, ro))))))"

definition WebhookService_Retry ::
  "env \<Rightarrow> 'j Webhook decoder \<Rightarrow> Context \<Rightarrow> WebhookService \<Rightarrow> string \<Rightarrow> RequestOption list
     \<Rightarrow> Request list \<Rightarrow> ('j Webhook option \<times> error option) \<times> Request list" where
  "WebhookService_Retry env dec ctx s identity opts sent =
     (case WebhookService_Retry_request env ctx s identity opts of
        Inl e \<Rightarrow> ((None, Some e), sent)
      | Inr (req, ro) \<Rightarrow>
          result_or_missing (do_attempts env (WebhookService.client s) (retries ro) dec req sent))"

section \<open>Properties\<close>

text \<open>
  The first \<open>k\<close> attempts of a call that starts after the requests \<open>sent\<close> each fail with
  an error that triggers a retry.
\<close>

fun retried :: "Client \<Rightarrow> 'p decoder \<Rightarrow> Request \<Rightarrow> Request list \<Rightarrow> nat \<Rightarrow> bool" where
  "retried cl dec req sent 0 = True"
| "retried cl dec req sent (Suc k) =
     ((case fst (attempt cl dec req (sent, \<lparr>Err = None, Payload = None\<rparr>)) of
         Some e \<Rightarrow> retryable e
       | None \<Rightarrow> False)
      \<and> retried cl dec req (sent @ [req]) k)"

text \<open>
  After \<open>k\<close> attempts that were retried, the next attempt receives the response \<open>res\<close>
  with a successful status, and \<open>Decode\<close> reads its body into the envelope \<open>r\<close> without
  an error.
\<close>

definition final_envelope ::
  "Client \<Rightarrow> 'p decoder \<Rightarrow> Request \<Rightarrow> Request list \<Rightarrow> nat \<Rightarrow> Response \<Rightarrow> 'p envelope \<Rightarrow> bool" where
  "final_envelope cl dec req sent k res r =
     (retried cl dec req sent k \<and>
      cl (sent @ replicate k req) req = Responded res \<and>
      responseErr res = None \<and>
      dec (RespBody res) \<lparr>Err = None, Payload = None\<rparr> = (None, r))"


section \<open>Example values\<close>

text \<open>
  Stand-ins for the library functions: \<open>Sprintf\<close> fills the one \<open>%v\<close> at the end of a
  format, \<open>url.Parse\<close> and \<open>http.NewRequest\<close> accept every string, header keys are
  canonical as written.
\<close>

definition sprintf0 :: "string \<Rightarrow> string list \<Rightarrow> string" where
  "sprintf0 f args = (case args of [] \<Rightarrow> f | a # _ \<Rightarrow> f @ '' <- '' @ a)"

definition env0 :: env where
  "env0 = \<lparr>Sprintf = sprintf0,
           url_Parse = (\<lambda>u. Inr \<lparr>Location = u, RawQuery = []\<rparr>),
           NewRequest_error = (\<lambda>m u. None),
           CanonicalHeaderKey = (\<lambda>k. k),
           DefaultClient = (\<lambda>h req. Failed ''no route to host''),
           userAgent = ''gocardless-pro-go/1.0.0'',
           NewIdempotencyKey = ''generated-key''\<rparr>"

text \<open>
  A client that answers the requests it is handed with the results of a list, one after
  the other, and refuses the connection once the list has ended.
\<close>

definition scripted :: "http_result list \<Rightarrow> Client" where
  "scripted rs h req = (if length h < length rs then rs ! length h else Failed ''connection refused'')"

text \<open>A client that honours the context of the request it is handed.\<close>

definition ctx_aware :: "http_result \<Rightarrow> Client" where
  "ctx_aware r h req = (case Ctx req of Cancelable True \<Rightarrow> Failed ''context canceled'' | _ \<Rightarrow> r)"

text \<open>A decoder given by a table from bodies to envelopes; other bodies are invalid JSON.\<close>

definition dec_table :: "(string \<times> 'p envelope) list \<Rightarrow> 'p decoder" where
  "dec_table tbl body r =
     (case map_of tbl body of None \<Rightarrow> (Some ''invalid character'', r) | Some v \<Rightarrow> (None, v))"

definition json0 :: "string \<Rightarrow> 'a \<Rightarrow> string + string" where
  "json0 key p = Inr (''{'' @ key @ ''}'')"

definition query_block :: "BlockListParams \<Rightarrow> string + string" where
  "query_block p =
     Inr (if BlockListParams.After p = [] then [] else ''after='' @ BlockListParams.After p)"

definition query_webhook :: "WebhookListParams \<Rightarrow> string + string" where
  "query_webhook p =
     Inr (if WebhookListParams.After p = [] then [] else ''after='' @ WebhookListParams.After p)"

definition e0 :: APIError where
  "e0 = \<lparr>Code = 422, Type = ''validation_failed'', Message = ''Validation failed'',
          Errors = [(''block_type'', ''is invalid'')], RequestID = ''REQ1''\<rparr>"

definition ok :: "string \<Rightarrow> http_result" where
  "ok body = Responded \<lparr>StatusCode = 200, RespBody = body\<rparr>"

definition unavailable :: http_result where
  "unavailable = Responded \<lparr>StatusCode = 503, RespBody = []\<rparr>"

definition block_service :: "Client \<Rightarrow> BlockService" where
  "block_service cl =
     \<lparr>BlockService.endpoint = ''https://api.example'', BlockService.token = ''tok'',
      BlockService.client = Some cl\<rparr>"

definition webhook_service :: "Client \<Rightarrow> WebhookService" where
  "webhook_service cl =
     \<lparr>WebhookService.endpoint = ''https://api.example'', WebhookService.token = ''tok'',
      WebhookService.client = Some cl\<rparr>"

definition create0 :: BlockCreateParams where
  "create0 = \<lparr>BlockCreateParams.Active = True, BlockCreateParams.BlockType = ''email'',
              BlockCreateParams.ReasonDescription = [], BlockCreateParams.ReasonType = ''other'',
              BlockCreateParams.ResourceReference = ''a@example.com''\<rparr>"

definition byref0 :: BlockBlockByRefParams where
  "byref0 = \<lparr>BlockBlockByRefParams.Active = True, BlockBlockByRefParams.ReasonDescription = [],
             BlockBlockByRefParams.ReasonType = ''other'',
             BlockBlockByRefParams.ReferenceType = ''customer'',
             BlockBlockByRefParams.ReferenceValue = ''CU123''\<rparr>"

definition blist0 :: "string \<Rightarrow> BlockListParams" where
  "blist0 a = \<lparr>BlockListParams.After = a, BlockListParams.Before = [],
               BlockListParams.Block = [], BlockListParams.BlockType = [],
               BlockListParams.CreatedAt = [], BlockListParams.Limit = 50,
               BlockListParams.ReasonType = [], BlockListParams.UpdatedAt = []\<rparr>"

definition wlist0 :: "string \<Rightarrow> WebhookListParams" where
  "wlist0 a = \<lparr>WebhookListParams.After = a, WebhookListParams.Before = [],
               WebhookListParams.CreatedAt = \<lparr>Gt = [], Gte = [], Lt = [], Lte = []\<rparr>,
               WebhookListParams.IsTest = False, WebhookListParams.Limit = 50,
               WebhookListParams.Successful = False\<rparr>"

definition block0 :: Block where
  "block0 = \<lparr>Block.Active = True, Block.BlockType = ''email'', Block.CreatedAt = [],
             Block.Id = ''BLC1'', Block.ReasonDescription = [], Block.ReasonType = ''other'',
             Block.ResourceReference = ''a@example.com'', Block.UpdatedAt = []\<rparr>"

definition bpage :: "string \<Rightarrow> BlockListResult" where
  "bpage a = \<lparr>BlockListResult.Blocks = [block0],
              BlockListResult.Meta = \<lparr>Cursors = \<lparr>Cursors.After = a, Cursors.Before = []\<rparr>,
                                        ListMeta.Limit = 50\<rparr>\<rparr>"

definition wpage :: "string \<Rightarrow> unit WebhookListResult" where
  "wpage a = \<lparr>Webhooks = [],
              WebhookListResult.Meta = \<lparr>Cursors = \<lparr>Cursors.After = a, Cursors.Before = []\<rparr>,
                                          ListMeta.Limit = 50\<rparr>\<rparr>"

text \<open>The envelope that carries only the API error, and the empty envelope.\<close>

definition err_envelope :: "'p envelope" where
  "err_envelope = \<lparr>Err = Some e0, Payload = None\<rparr>"

definition no_envelope :: "'p envelope" where
  "no_envelope = \<lparr>Err = None, Payload = None\<rparr>"

definition dec0 :: "'p decoder" where
  "dec0 = dec_table [(''{error}'', err_envelope), (''{}'', no_envelope)]"

definition byrefres0 :: BlockBlockByRefResult where
  "byrefres0 = \<lparr>BlockBlockByRefResult.Blocks = [block0],
                BlockBlockByRefResult.Meta = \<lparr>Cursors = \<lparr>Cursors.After = [], Cursors.Before = []\<rparr>,
                                              ListMeta.Limit = 50\<rparr>\<rparr>"

definition webhook0 :: "unit Webhook" where
  "webhook0 = \<lparr>Webhook.CreatedAt = [], Webhook.Id = ''WB1'', Webhook.IsTest = False,
               RequestBody = [], RequestHeaders = [], ResponseBody = [],
               ResponseBodyTruncated = False, ResponseCode = 200, ResponseHeaders = [],
               ResponseHeadersContentTruncated = False, ResponseHeadersCountTruncated = False,
               Webhook.Successful = True, Url = ''https://hooks.example''\<rparr>"

text \<open>A decoder for a body that carries both the API error and a payload.\<close>

definition dec_both :: "'p \<Rightarrow> 'p decoder" where
  "dec_both v = dec_table [(''{error,data}'', \<lparr>Err = Some e0, Payload = Some v\<rparr>)]"

text \<open>Paginators over the example services, with a given cursor and cached page.\<close>

definition biter :: "Client \<Rightarrow> string \<Rightarrow> BlockListResult option \<Rightarrow> BlockListPagingIterator" where
  "biter cl cur page =
     \<lparr>BlockListPagingIterator.cursor = cur, BlockListPagingIterator.response = page,
      BlockListPagingIterator.params = blist0 [], BlockListPagingIterator.service = block_service cl\<rparr>"

definition witer ::
  "Client \<Rightarrow> string \<Rightarrow> unit WebhookListResult option \<Rightarrow> unit WebhookListPagingIterator" where
  "witer cl cur page =
     \<lparr>WebhookListPagingIterator.cursor = cur, WebhookListPagingIterator.response = page,
      WebhookListPagingIterator.params = wlist0 [],
      WebhookListPagingIterator.service = webhook_service cl\<rparr>"

text \<open>A decoder for a body that carries the payload alone.\<close>

definition dec_ok :: "'p \<Rightarrow> 'p decoder" where
  "dec_ok v = dec_table [(''{data}'', \<lparr>Err = None, Payload = Some v\<rparr>)]"


section \<open>Lemmas on the retry loop\<close>


lemma attempt_sent: "attempt cl dec req (sent, r) = (err, sent', r') \<Longrightarrow> sent' = sent @ [req]"
  by (auto simp: attempt_def split: http_result.splits option.splits prod.splits)

lemma attempt_retryable:
  "attempt cl dec req (sent, r) = (Some e, sent', r') \<Longrightarrow> retryable e \<Longrightarrow> r' = r"
  by (auto simp: attempt_def retryable_def responseErr_def
           split: http_result.splits option.splits prod.splits if_splits)

lemma try_loop_retried:
  "retried cl dec req sent k \<Longrightarrow> k < n \<Longrightarrow>
   try_loop n (attempt cl dec req) (sent, \<lparr>Err = None, Payload = None\<rparr>) =
   try_loop (n - k) (attempt cl dec req) (sent @ replicate k req, \<lparr>Err = None, Payload = None\<rparr>)"
proof (induction k arbitrary: sent n)
  case 0
  then show ?case by simp
next
  case (Suc k)
  from Suc.prems(2) obtain m where n: "n = Suc m" and km: "k < m" by (cases n) auto
  let ?z = "\<lparr>Err = None, Payload = None\<rparr> :: 'a envelope"
  obtain err sent' r' where a: "attempt cl dec req (sent, ?z) = (err, sent', r')"
    by (cases "attempt cl dec req (sent, ?z)") auto
  from Suc.prems(1) a obtain e where e: "err = Some e" "retryable e"
    by (auto split: option.splits)
  from a e have s': "sent' = sent @ [req]" and r': "r' = ?z"
    using attempt_sent attempt_retryable by blast+
  have rest: "retried cl dec req (sent @ [req]) k" using Suc.prems(1) by simp
  have "try_loop n (attempt cl dec req) (sent, ?z) = try_loop m (attempt cl dec req) (sent @ [req], ?z)"
    using a e s' r' km n by simp
  also have "\<dots> = try_loop (m - k) (attempt cl dec req) ((sent @ [req]) @ replicate k req, ?z)"
    by (rule Suc.IH [OF rest km])
  finally show ?case using n by (simp add: replicate_app_Cons_same)
qed

lemma attempt_envelope:
  assumes "cl h req = Responded res" and "responseErr res = None"
    and "dec (RespBody res) r0 = (None, r)"
  shows "attempt cl dec req (h, r0) =
           ((case Err r of Some e \<Rightarrow> Some (APIErr e) | None \<Rightarrow> None), h @ [req], r)"
  using assms by (simp add: attempt_def split: option.splits)

lemma do_attempts_final:
  assumes "final_envelope (choose_client env co) dec req sent k res r" and "int k < count"
  shows "do_attempts env co count dec req sent =
           ((case Err r of Some e \<Rightarrow> Some (APIErr e) | None \<Rightarrow> None),
            sent @ replicate (Suc k) req, r)"
proof -
  let ?cl = "choose_client env co"
  let ?z = "\<lparr>Err = None, Payload = None\<rparr> :: 'a envelope"
  from assms(2) obtain m where m: "nat count - k = Suc m" and kn: "k < nat count"
    by (cases "nat count - k") auto
  have a: "attempt ?cl dec req (sent @ replicate k req, ?z) =
             ((case Err r of Some e \<Rightarrow> Some (APIErr e) | None \<Rightarrow> None),
              (sent @ replicate k req) @ [req], r)"
    using assms(1) unfolding final_envelope_def by (intro attempt_envelope) auto
  have "try_loop (nat count) (attempt ?cl dec req) (sent, ?z) =
          try_loop (Suc m) (attempt ?cl dec req) (sent @ replicate k req, ?z)"
    using try_loop_retried [of ?cl dec req sent k "nat count"] assms(1) kn m
    by (simp add: final_envelope_def)
  also have "\<dots> = ((case Err r of Some e \<Rightarrow> Some (APIErr e) | None \<Rightarrow> None),
                    (sent @ replicate k req) @ [req], r)"
    using a by (simp add: retryable_def split: option.splits)
  finally show ?thesis
    by (simp add: do_attempts_def try_call_def replicate_append_same)
qed

lemma do_attempts_final3:
  assumes "final_envelope (choose_client env co) dec req sent k res r" and "k < 3"
  shows "do_attempts env co 3 dec req sent =
           ((case Err r of Some e \<Rightarrow> Some (APIErr e) | None \<Rightarrow> None),
            sent @ replicate (Suc k) req, r)"
  using do_attempts_final [OF assms(1), of 3] assms(2) by simp

lemmas service_defs =
  BlockService_Create_def BlockService_Get_def BlockService_List_def BlockService_Disable_def
  BlockService_Enable_def BlockService_BlockByRef_def WebhookService_List_def
  WebhookService_Get_def WebhookService_Retry_def

lemmas value_defs =
  BlockListPagingIterator_Value_def WebhookListPagingIterator_Value_def

lemma try_loop_sent:
  "try_loop n (attempt cl dec req) (sent, r) = (err, sent', r') \<Longrightarrow>
   \<exists>k\<le>n. sent' = sent @ replicate k req"
proof (induction n arbitrary: sent r)
  case 0
  then show ?case by simp
next
  case (Suc n)
  obtain e1 s1 r1 where a: "attempt cl dec req (sent, r) = (e1, s1, r1)"
    by (cases "attempt cl dec req (sent, r)") auto
  then have s1: "s1 = sent @ [req]" by (rule attempt_sent)
  show ?case
  proof (cases "\<exists>e. e1 = Some e \<and> retryable e \<and> 0 < n")
    case True
    then have "try_loop n (attempt cl dec req) (s1, r1) = (err, sent', r')"
      using Suc.prems a by auto
    from Suc.IH [OF this] obtain k where "k \<le> n" "sent' = s1 @ replicate k req" by blast
    then have "Suc k \<le> Suc n \<and> sent' = sent @ replicate (Suc k) req"
      using s1 by (simp add: replicate_app_Cons_same)
    then show ?thesis by blast
  next
    case False
    then have "sent' = s1" using Suc.prems a by (auto split: option.splits if_splits)
    then have "Suc 0 \<le> Suc n \<and> sent' = sent @ replicate (Suc 0) req" using s1 by simp
    then show ?thesis by blast
  qed
qed

lemma do_attempts_sent:
  "\<exists>n\<le>nat count. fst (snd (do_attempts env co count dec req sent)) = sent @ replicate n req"
proof -
  obtain err sent' r' where
    "try_loop (nat count) (attempt (choose_client env co) dec req)
       (sent, \<lparr>Err = None, Payload = None\<rparr>) = (err, sent', r')"
    using prod_cases3 by blast
  then show ?thesis
    using try_loop_sent by (fastforce simp: do_attempts_def try_call_def)
qed

lemma result_or_missing_sent: "snd (result_or_missing r) = fst (snd r)"
  by (simp add: result_or_missing_def split: prod.splits option.splits)

lemma override_headers_other:
  "CanonicalHeaderKey env k \<notin> CanonicalHeaderKey env ` fst ` set hs \<Longrightarrow>
   Header_Get env (override_headers env hs req) k = Header_Get env req k"
  by (induction hs arbitrary: req) (auto simp: Header_Get_def Header_Set_def)

lemma override_headers_defined:
  "Header_Get env req k \<noteq> None \<Longrightarrow> Header_Get env (override_headers env hs req) k \<noteq> None"
  by (induction hs arbitrary: req) (auto simp: Header_Get_def Header_Set_def)

lemma Header_Get_Set: "Header_Get env (Header_Set env k v req) k = Some v"
  by (simp add: Header_Get_def Header_Set_def)


lemmas request_defs =
  BlockService_Create_request_def BlockService_Get_request_def BlockService_List_request_def
  BlockService_Disable_request_def BlockService_Enable_request_def
  BlockService_BlockByRef_request_def WebhookService_List_request_def
  WebhookService_Get_request_def WebhookService_Retry_request_def
  BlockListPagingIterator_Value_request_def WebhookListPagingIterator_Value_request_def

lemmas build_defs =
  request_defs http_NewRequest_def env0_def sprintf0_def json0_def query_block_def
  query_webhook_def block_service_def webhook_service_def BlockService_All_def
  WebhookService_All_def Let_def

lemmas run_defs =
  final_envelope_def attempt_def retryable_def responseErr_def choose_client_def scripted_def
  dec_table_def dec0_def dec_both_def err_envelope_def no_envelope_def ok_def unavailable_def
  block_service_def webhook_service_def BlockService_All_def WebhookService_All_def
  BlockListPagingIterator_Next_def WebhookListPagingIterator_Next_def


lemma try3: "try_call 3 fn st = try_loop (Suc (Suc (Suc 0))) fn st"
  by (simp add: try_call_def numeral_3_eq_3)

lemmas eval_defs =
  do_attempts_def try3 attempt_def retryable_def responseErr_def choose_client_def scripted_def
  dec_table_def dec0_def dec_both_def err_envelope_def no_envelope_def ok_def unavailable_def
  result_or_missing_def

lemmas header_defs = default_headers_def Header_Set_def Header_Get_def

lemma write_headers_key:
  "Header_Get env
     (override_headers env hs (Header_Set env ''Idempotency-Key'' key req)) ''Idempotency-Key'' \<noteq> None \<and>
   (CanonicalHeaderKey env ''Idempotency-Key'' \<notin> CanonicalHeaderKey env ` fst ` set hs \<longrightarrow>
    Header_Get env
      (override_headers env hs (Header_Set env ''Idempotency-Key'' key req)) ''Idempotency-Key'' = Some key)"
  by (simp add: override_headers_other override_headers_defined Header_Get_Set)

lemma write_headers_key_ex:
  "\<exists>y. Header_Get env
     (override_headers env hs (Header_Set env ''Idempotency-Key'' key req)) ''Idempotency-Key'' = Some y"
  using write_headers_key [of env hs key req] by auto

text \<open>
  No method uses the result of \<open>req.WithContext(ctx)\<close>: what a call returns and what it
  hands to the client do not depend on the context it is given.
\<close>

lemma context_is_ignored:
  "BlockService_Create env jeC decB ctx s pC opts sent =
     BlockService_Create env jeC decB Background s pC opts sent"
  "BlockService_Get env decB ctx s ident opts sent =
     BlockService_Get env decB Background s ident opts sent"
  "BlockService_List env qvB decL ctx s pL opts sent =
     BlockService_List env qvB decL Background s pL opts sent"
  "BlockService_Disable env decB ctx s ident opts sent =
     BlockService_Disable env decB Background s ident opts sent"
  "BlockService_Enable env decB ctx s ident opts sent =
     BlockService_Enable env decB Background s ident opts sent"
  "BlockService_BlockByRef env jeR decR ctx s pR opts sent =
     BlockService_BlockByRef env jeR decR Background s pR opts sent"
  "BlockListPagingIterator_Value env qvB decL ctx c sent =
     BlockListPagingIterator_Value env qvB decL Background c sent"
  "WebhookService_List env qvW decWL ctx w pW opts sent =
     WebhookService_List env qvW decWL Background w pW opts sent"
  "WebhookService_Get env decW ctx w ident opts sent =
     WebhookService_Get env decW Background w ident opts sent"
  "WebhookService_Retry env decW ctx w ident opts sent =
     WebhookService_Retry env decW Background w ident opts sent"
  "WebhookListPagingIterator_Value env qvW decWL ctx wc sent =
     WebhookListPagingIterator_Value env qvW decWL Background wc sent"
  unfolding service_defs value_defs request_defs Let_def by (rule refl)+

section \<open>The claims\<close>


text \<open>
  Claim C1. In every service call and in the paginator's \<open>Value\<close>: when an attempt receives a
  response with a successful status whose decoded envelope has its \<open>error\<close> populated, the call
  returns that API error at once. Whatever the number of attempts left (\<open>k + 1\<close> may be any
  number up to the retry count), the request of that attempt is the last one handed to the
  client.
\<close>

theorem api_error_not_retried:
  "((BlockService_Create_request env jeC ctx s pC opts = Inr (req, ro) \<and> int k < retries ro \<and>
      final_envelope (choose_client env (BlockService.client s)) decB req sent k res rB \<and>
      Err rB = Some e) \<longrightarrow>
     BlockService_Create env jeC decB ctx s pC opts sent = ((None, Some (APIErr e)), sent @ replicate (Suc k) req)) \<and>
   ((BlockService_Get_request env ctx s ident opts = Inr (req, ro) \<and> int k < retries ro \<and>
      final_envelope (choose_client env (BlockService.client s)) decB req sent k res rB \<and>
      Err rB = Some e) \<longrightarrow>
     BlockService_Get env decB ctx s ident opts sent = ((None, Some (APIErr e)), sent @ replicate (Suc k) req)) \<and>
   ((BlockService_List_request env qvB ctx s pL opts = Inr (req, ro) \<and> int k < retries ro \<and>
      final_envelope (choose_client env (BlockService.client s)) decL req sent k res rL \<and>
      Err rL = Some e) \<longrightarrow>
     BlockService_List env qvB decL ctx s pL opts sent = ((None, Some (APIErr e)), sent @ replicate (Suc k) req)) \<and>
   ((BlockService_Disable_request env ctx s ident opts = Inr (req, ro) \<and> int k < retries ro \<and>
      final_envelope (choose_client env (BlockService.client s)) decB req sent k res rB \<and>
      Err rB = Some e) \<longrightarrow>
     BlockService_Disable env decB ctx s ident opts sent = ((None, Some (APIErr e)), sent @ replicate (Suc k) req)) \<and>
   ((BlockService_Enable_request env ctx s ident opts = Inr (req, ro) \<and> int k < retries ro \<and>
      final_envelope (choose_client env (BlockService.client s)) decB req sent k res rB \<and>
      Err rB = Some e) \<longrightarrow>
     BlockService_Enable env decB ctx s ident opts sent = ((None, Some (APIErr e)), sent @ replicate (Suc k) req)) \<and>
   ((BlockService_BlockByRef_request env jeR ctx s pR opts = Inr (req, ro) \<and> int k < retries ro \<and>
      final_envelope (choose_client env (BlockService.client s)) decR req sent k res rR \<and>
      Err rR = Some e) \<longrightarrow>
     BlockService_BlockByRef env jeR decR ctx s pR opts sent = ((None, Some (APIErr e)), sent @ replicate (Suc k) req)) \<and>
   ((WebhookService_List_request env qvW ctx w pW opts = Inr (req, ro) \<and> int k < retries ro \<and>
      final_envelope (choose_client env (WebhookService.client w)) decWL req sent k res rWL \<and>
      Err rWL = Some e) \<longrightarrow>
     WebhookService_List env qvW decWL ctx w pW opts sent = ((None, Some (APIErr e)), sent @ replicate (Suc k) req)) \<and>
   ((WebhookService_Get_request env ctx w ident opts = Inr (req, ro) \<and> int k < retries ro \<and>
      final_envelope (choose_client env (WebhookService.client w)) decW req sent k res rW \<and>
      Err rW = Some e) \<longrightarrow>
     WebhookService_Get env decW ctx w ident opts sent = ((None, Some (APIErr e)), sent @ replicate (Suc k) req)) \<and>
   ((WebhookService_Retry_request env ctx w ident opts = Inr (req, ro) \<and> int k < retries ro \<and>
      final_envelope (choose_client env (WebhookService.client w)) decW req sent k res rW \<and>
      Err rW = Some e) \<longrightarrow>
     WebhookService_Retry env decW ctx w ident opts sent = ((None, Some (APIErr e)), sent @ replicate (Suc k) req)) \<and>
   ((BlockListPagingIterator_Next c \<and> BlockListPagingIterator_Value_request env qvB ctx c = Inr req \<and> k < 3 \<and>
      final_envelope (choose_client env (BlockService.client (BlockListPagingIterator.service c))) decL req sent k res rL \<and>
      Err rL = Some e) \<longrightarrow>
     BlockListPagingIterator_Value env qvB decL ctx c sent = ((None, Some (APIErr e)), c, sent @ replicate (Suc k) req)) \<and>
   ((WebhookListPagingIterator_Next wc \<and> WebhookListPagingIterator_Value_request env qvW ctx wc = Inr req \<and> k < 3 \<and>
      final_envelope (choose_client env (WebhookService.client (WebhookListPagingIterator.service wc))) decWL req sent k res rWL \<and>
      Err rWL = Some e) \<longrightarrow>
     WebhookListPagingIterator_Value env qvW decWL ctx wc sent = ((None, Some (APIErr e)), wc, sent @ replicate (Suc k) req))"
  apply (intro conjI impI)
            apply (auto simp: service_defs result_or_missing_def dest!: do_attempts_final)[9]
   apply (auto simp: value_defs dest!: do_attempts_final3)
  done

text \<open>
  Witness for C1. The first attempt meets a reset connection and is retried; the second receives
  status 200 with the API error in its body; of the three attempts allowed, two are made.
\<close>

theorem api_error_not_retried_witness:
  "(fst (BlockService_Create env0 json0 (dec0 :: Block decoder) Background (block_service (scripted [Failed ''reset'', ok ''{error}''])) create0 [] []) = (None, Some (APIErr e0)) \<and>
    length (snd (BlockService_Create env0 json0 (dec0 :: Block decoder) Background (block_service (scripted [Failed ''reset'', ok ''{error}''])) create0 [] [])) = 2) \<and>
   (fst (BlockService_Get env0 (dec0 :: Block decoder) Background (block_service (scripted [Failed ''reset'', ok ''{error}''])) ''BLC1'' [] []) = (None, Some (APIErr e0)) \<and>
    length (snd (BlockService_Get env0 (dec0 :: Block decoder) Background (block_service (scripted [Failed ''reset'', ok ''{error}''])) ''BLC1'' [] [])) = 2) \<and>
   (fst (BlockService_List env0 query_block (dec0 :: BlockListResult decoder) Background (block_service (scripted [Failed ''reset'', ok ''{error}''])) (blist0 []) [] []) = (None, Some (APIErr e0)) \<and>
    length (snd (BlockService_List env0 query_block (dec0 :: BlockListResult decoder) Background (block_service (scripted [Failed ''reset'', ok ''{error}''])) (blist0 []) [] [])) = 2) \<and>
   (fst (BlockService_Disable env0 (dec0 :: Block decoder) Background (block_service (scripted [Failed ''reset'', ok ''{error}''])) ''BLC1'' [] []) = (None, Some (APIErr e0)) \<and>
    length (snd (BlockService_Disable env0 (dec0 :: Block decoder) Background (block_service (scripted [Failed ''reset'', ok ''{error}''])) ''BLC1'' [] [])) = 2) \<and>
   (fst (BlockService_Enable env0 (dec0 :: Block decoder) Background (block_service (scripted [Failed ''reset'', ok ''{error}''])) ''BLC1'' [] []) = (None, Some (APIErr e0)) \<and>
    length (snd (BlockService_Enable env0 (dec0 :: Block decoder) Background (block_service (scripted [Failed ''reset'', ok ''{error}''])) ''BLC1'' [] [])) = 2) \<and>
   (fst (BlockService_BlockByRef env0 json0 (dec0 :: BlockBlockByRefResult decoder) Background (block_service (scripted [Failed ''reset'', ok ''{error}''])) byref0 [] []) = (None, Some (APIErr e0)) \<and>
    length (snd (BlockService_BlockByRef env0 json0 (dec0 :: BlockBlockByRefResult decoder) Background (block_service (scripted [Failed ''reset'', ok ''{error}''])) byref0 [] [])) = 2) \<and>
   (fst (WebhookService_List env0 query_webhook (dec0 :: unit WebhookListResult decoder) Background (webhook_service (scripted [Failed ''reset'', ok ''{error}''])) (wlist0 []) [] []) = (None, Some (APIErr e0)) \<and>
    length (snd (WebhookService_List env0 query_webhook (dec0 :: unit WebhookListResult decoder) Background (webhook_service (scripted [Failed ''reset'', ok ''{error}''])) (wlist0 []) [] [])) = 2) \<and>
   (fst (WebhookService_Get env0 (dec0 :: unit Webhook decoder) Background (webhook_service (scripted [Failed ''reset'', ok ''{error}''])) ''WB1'' [] []) = (None, Some (APIErr e0)) \<and>
    length (snd (WebhookService_Get env0 (dec0 :: unit Webhook decoder) Background (webhook_service (scripted [Failed ''reset'', ok ''{error}''])) ''WB1'' [] [])) = 2) \<and>
   (fst (WebhookService_Retry env0 (dec0 :: unit Webhook decoder) Background (webhook_service (scripted [Failed ''reset'', ok ''{error}''])) ''WB1'' [] []) = (None, Some (APIErr e0)) \<and>
    length (snd (WebhookService_Retry env0 (dec0 :: unit Webhook decoder) Background (webhook_service (scripted [Failed ''reset'', ok ''{error}''])) ''WB1'' [] [])) = 2) \<and>
   (fst (BlockListPagingIterator_Value env0 query_block (dec0 :: BlockListResult decoder) Background (BlockService_All Background (block_service (scripted [Failed ''reset'', ok ''{error}''])) (blist0 [])) []) = (None, Some (APIErr e0)) \<and>
    fst (snd (BlockListPagingIterator_Value env0 query_block (dec0 :: BlockListResult decoder) Background (BlockService_All Background (block_service (scripted [Failed ''reset'', ok ''{error}''])) (blist0 [])) [])) = (BlockService_All Background (block_service (scripted [Failed ''reset'', ok ''{error}''])) (blist0 [])) \<and>
    length (snd (snd (BlockListPagingIterator_Value env0 query_block (dec0 :: BlockListResult decoder) Background (BlockService_All Background (block_service (scripted [Failed ''reset'', ok ''{error}''])) (blist0 [])) []))) = 2) \<and>
   (fst (WebhookListPagingIterator_Value env0 query_webhook (dec0 :: unit WebhookListResult decoder) Background (WebhookService_All Background (webhook_service (scripted [Failed ''reset'', ok ''{error}''])) (wlist0 []) :: unit WebhookListPagingIterator) []) = (None, Some (APIErr e0)) \<and>
    fst (snd (WebhookListPagingIterator_Value env0 query_webhook (dec0 :: unit WebhookListResult decoder) Background (WebhookService_All Background (webhook_service (scripted [Failed ''reset'', ok ''{error}''])) (wlist0 []) :: unit WebhookListPagingIterator) [])) = (WebhookService_All Background (webhook_service (scripted [Failed ''reset'', ok ''{error}''])) (wlist0 []) :: unit WebhookListPagingIterator) \<and>
    length (snd (snd (WebhookListPagingIterator_Value env0 query_webhook (dec0 :: unit WebhookListResult decoder) Background (WebhookService_All Background (webhook_service (scripted [Failed ''reset'', ok ''{error}''])) (wlist0 []) :: unit WebhookListPagingIterator) []))) = 2)"
proof -
  have w0: "fst (BlockService_Create env0 json0 (dec0 :: Block decoder) Background (block_service (scripted [Failed ''reset'', ok ''{error}''])) create0 [] []) = (None, Some (APIErr e0)) \<and>
    length (snd (BlockService_Create env0 json0 (dec0 :: Block decoder) Background (block_service (scripted [Failed ''reset'', ok ''{error}''])) create0 [] [])) = 2"
  proof -
    obtain req ro where rq: "BlockService_Create_request env0 json0 Background (block_service (scripted [Failed ''reset'', ok ''{error}''])) create0 [] = Inr (req, ro)" and ro: "retries ro = 3"
      by (simp add: build_defs)
    have "BlockService_Create env0 json0 (dec0 :: Block decoder) Background (block_service (scripted [Failed ''reset'', ok ''{error}''])) create0 [] [] =
            ((None, Some (APIErr e0)), [] @ replicate (Suc (Suc 0)) req)"
      apply (rule api_error_not_retried [where ro=ro and rB="\<lparr>Err = Some e0, Payload = None\<rparr>" and k="Suc 0" and req=req
            and res="\<lparr>StatusCode = 200, RespBody = ''{error}''\<rparr>", THEN conjunct1, THEN mp])
      using rq ro apply (simp add: run_defs)
      done
    then show ?thesis by simp
  qed
  have w1: "fst (BlockService_Get env0 (dec0 :: Block decoder) Background (block_service (scripted [Failed ''reset'', ok ''{error}''])) ''BLC1'' [] []) = (None, Some (APIErr e0)) \<and>
    length (snd (BlockService_Get env0 (dec0 :: Block decoder) Background (block_service (scripted [Failed ''reset'', ok ''{error}''])) ''BLC1'' [] [])) = 2"
  proof -
    obtain req ro where rq: "BlockService_Get_request env0 Background (block_service (scripted [Failed ''reset'', ok ''{error}''])) ''BLC1'' [] = Inr (req, ro)" and ro: "retries ro = 3"
      by (simp add: build_defs)
    have "BlockService_Get env0 (dec0 :: Block decoder) Background (block_service (scripted [Failed ''reset'', ok ''{error}''])) ''BLC1'' [] [] =
            ((None, Some (APIErr e0)), [] @ replicate (Suc (Suc 0)) req)"
      apply (rule api_error_not_retried [where ro=ro and rB="\<lparr>Err = Some e0, Payload = None\<rparr>" and k="Suc 0" and req=req
            and res="\<lparr>StatusCode = 200, RespBody = ''{error}''\<rparr>", THEN conjunct2, THEN conjunct1, THEN mp])
      using rq ro apply (simp add: run_defs)
      done
    then show ?thesis by simp
  qed
  have w2: "fst (BlockService_List env0 query_block (dec0 :: BlockListResult decoder) Background (block_service (scripted [Failed ''reset'', ok ''{error}''])) (blist0 []) [] []) = (None, Some (APIErr e0)) \<and>
    length (snd (BlockService_List env0 query_block (dec0 :: BlockListResult decoder) Background (block_service (scripted [Failed ''reset'', ok ''{error}''])) (blist0 []) [] [])) = 2"
  proof -
    obtain req ro where rq: "BlockService_List_request env0 query_block Background (block_service (scripted [Failed ''reset'', ok ''{error}''])) (blist0 []) [] = Inr (req, ro)" and ro: "retries ro = 3"
      by (simp add: build_defs)
    have "BlockService_List env0 query_block (dec0 :: BlockListResult decoder) Background (block_service (scripted [Failed ''reset'', ok ''{error}''])) (blist0 []) [] [] =
            ((None, Some (APIErr e0)), [] @ replicate (Suc (Suc 0)) req)"
      apply (rule api_error_not_retried [where ro=ro and rL="\<lparr>Err = Some e0, Payload = None\<rparr>" and k="Suc 0" and req=req
            and res="\<lparr>StatusCode = 200, RespBody = ''{error}''\<rparr>", THEN conjunct2, THEN conjunct2, THEN conjunct1, THEN mp])
      using rq ro apply (simp add: run_defs)
      done
    then show ?thesis by simp
  qed
  have w3: "fst (BlockService_Disable env0 (dec0 :: Block decoder) Background (block_service (scripted [Failed ''reset'', ok ''{error}''])) ''BLC1'' [] []) = (None, Some (APIErr e0)) \<and>
    length (snd (BlockService_Disable env0 (dec0 :: Block decoder) Background (block_service (scripted [Failed ''reset'', ok ''{error}''])) ''BLC1'' [] [])) = 2"
  proof -
    obtain req ro where rq: "BlockService_Disable_request env0 Background (block_service (scripted [Failed ''reset'', ok ''{error}''])) ''BLC1'' [] = Inr (req, ro)" and ro: "retries ro = 3"
      by (simp add: build_defs)
    have "BlockService_Disable env0 (dec0 :: Block decoder) Background (block_service (scripted [Failed ''reset'', ok ''{error}''])) ''BLC1'' [] [] =
            ((None, Some (APIErr e0)), [] @ replicate (Suc (Suc 0)) req)"
      apply (rule api_error_not_retried [where ro=ro and rB="\<lparr>Err = Some e0, Payload = None\<rparr>" and k="Suc 0" and req=req
            and res="\<lparr>StatusCode = 200, RespBody = ''{error}''\<rparr>", THEN conjunct2, THEN conjunct2, THEN conjunct2, THEN conjunct1, THEN mp])
      using rq ro apply (simp add: run_defs)
      done
    then show ?thesis by simp
  qed
  have w4: "fst (BlockService_Enable env0 (dec0 :: Block decoder) Background (block_service (scripted [Failed ''reset'', ok ''{error}''])) ''BLC1'' [] []) = (None, Some (APIErr e0)) \<and>
    length (snd (BlockService_Enable env0 (dec0 :: Block decoder) Background (block_service (scripted [Failed ''reset'', ok ''{error}''])) ''BLC1'' [] [])) = 2"
  proof -
    obtain req ro where rq: "BlockService_Enable_request env0 Background (block_service (scripted [Failed ''reset'', ok ''{error}''])) ''BLC1'' [] = Inr (req, ro)" and ro: "retries ro = 3"
      by (simp add: build_defs)
    have "BlockService_Enable env0 (dec0 :: Block decoder) Background (block_service (scripted [Failed ''reset'', ok ''{error}''])) ''BLC1'' [] [] =
            ((None, Some (APIErr e0)), [] @ replicate (Suc (Suc 0)) req)"
      apply (rule api_error_not_retried [where ro=ro and rB="\<lparr>Err = Some e0, Payload = None\<rparr>" and k="Suc 0" and req=req
            and res="\<lparr>StatusCode = 200, RespBody = ''{error}''\<rparr>", THEN conjunct2, THEN conjunct2, THEN conjunct2, THEN conjunct2, THEN conjunct1, THEN mp])
      using rq ro apply (simp add: run_defs)
      done
    then show ?thesis by simp
  qed
  have w5: "fst (BlockService_BlockByRef env0 json0 (dec0 :: BlockBlockByRefResult decoder) Background (block_service (scripted [Failed ''reset'', ok ''{error}''])) byref0 [] []) = (None, Some (APIErr e0)) \<and>
    length (snd (BlockService_BlockByRef env0 json0 (dec0 :: BlockBlockByRefResult decoder) Background (block_service (scripted [Failed ''reset'', ok ''{error}''])) byref0 [] [])) = 2"
  proof -
    obtain req ro where rq: "BlockService_BlockByRef_request env0 json0 Background (block_service (scripted [Failed ''reset'', ok ''{error}''])) byref0 [] = Inr (req, ro)" and ro: "retries ro = 3"
      by (simp add: build_defs)
    have "BlockService_BlockByRef env0 json0 (dec0 :: BlockBlockByRefResult decoder) Background (block_service (scripted [Failed ''reset'', ok ''{error}''])) byref0 [] [] =
            ((None, Some (APIErr e0)), [] @ replicate (Suc (Suc 0)) req)"
      apply (rule api_error_not_retried [where ro=ro and rR="\<lparr>Err = Some e0, Payload = None\<rparr>" and k="Suc 0" and req=req
            and res="\<lparr>StatusCode = 200, RespBody = ''{error}''\<rparr>", THEN conjunct2, THEN conjunct2, THEN conjunct2, THEN conjunct2, THEN conjunct2, THEN conjunct1, THEN mp])
      using rq ro apply (simp add: run_defs)
      done
    then show ?thesis by simp
  qed
  have w6: "fst (WebhookService_List env0 query_webhook (dec0 :: unit WebhookListResult decoder) Background (webhook_service (scripted [Failed ''reset'', ok ''{error}''])) (wlist0 []) [] []) = (None, Some (APIErr e0)) \<and>
    length (snd (WebhookService_List env0 query_webhook (dec0 :: unit WebhookListResult decoder) Background (webhook_service (scripted [Failed ''reset'', ok ''{error}''])) (wlist0 []) [] [])) = 2"
  proof -
    obtain req ro where rq: "WebhookService_List_request env0 query_webhook Background (webhook_service (scripted [Failed ''reset'', ok ''{error}''])) (wlist0 []) [] = Inr (req, ro)" and ro: "retries ro = 3"
      by (simp add: build_defs)
    have "WebhookService_List env0 query_webhook (dec0 :: unit WebhookListResult decoder) Background (webhook_service (scripted [Failed ''reset'', ok ''{error}''])) (wlist0 []) [] [] =
            ((None, Some (APIErr e0)), [] @ replicate (Suc (Suc 0)) req)"
      apply (rule api_error_not_retried [where ro=ro and rWL="\<lparr>Err = Some e0, Payload = None\<rparr>" and k="Suc 0" and req=req
            and res="\<lparr>StatusCode = 200, RespBody = ''{error}''\<rparr>", THEN conjunct2, THEN conjunct2, THEN conjunct2, THEN conjunct2, THEN conjunct2, THEN conjunct2, THEN conjunct1, THEN mp])
      using rq ro apply (simp add: run_defs)
      done
    then show ?thesis by simp
  qed
  have w7: "fst (WebhookService_Get env0 (dec0 :: unit Webhook decoder) Background (webhook_service (scripted [Failed ''reset'', ok ''{error}''])) ''WB1'' [] []) = (None, Some (APIErr e0)) \<and>
    length (snd (WebhookService_Get env0 (dec0 :: unit Webhook decoder) Background (webhook_service (scripted [Failed ''reset'', ok ''{error}''])) ''WB1'' [] [])) = 2"
  proof -
    obtain req ro where rq: "WebhookService_Get_request env0 Background (webhook_service (scripted [Failed ''reset'', ok ''{error}''])) ''WB1'' [] = Inr (req, ro)" and ro: "retries ro = 3"
      by (simp add: build_defs)
    have "WebhookService_Get env0 (dec0 :: unit Webhook decoder) Background (webhook_service (scripted [Failed ''reset'', ok ''{error}''])) ''WB1'' [] [] =
            ((None, Some (APIErr e0)), [] @ replicate (Suc (Suc 0)) req)"
      apply (rule api_error_not_retried [where ro=ro and rW="\<lparr>Err = Some e0, Payload = None\<rparr>" and k="Suc 0" and req=req
            and res="\<lparr>StatusCode = 200, RespBody = ''{error}''\<rparr>", THEN conjunct2, THEN conjunct2, THEN conjunct2, THEN conjunct2, THEN conjunct2, THEN conjunct2, THEN conjunct2, THEN conjunct1, THEN mp])
      using rq ro apply (simp add: run_defs)
      done
    then show ?thesis by simp
  qed
  have w8: "fst (WebhookService_Retry env0 (dec0 :: unit Webhook decoder) Background (webhook_service (scripted [Failed ''reset'', ok ''{error}''])) ''WB1'' [] []) = (None, Some (APIErr e0)) \<and>
    length (snd (WebhookService_Retry env0 (dec0 :: unit Webhook decoder) Background (webhook_service (scripted [Failed ''reset'', ok ''{error}''])) ''WB1'' [] [])) = 2"
  proof -
    obtain req ro where rq: "WebhookService_Retry_request env0 Background (webhook_service (scripted [Failed ''reset'', ok ''{error}''])) ''WB1'' [] = Inr (req, ro)" and ro: "retries ro = 3"
      by (simp add: build_defs)
    have "WebhookService_Retry env0 (dec0 :: unit Webhook decoder) Background (webhook_service (scripted [Failed ''reset'', ok ''{error}''])) ''WB1'' [] [] =
            ((None, Some (APIErr e0)), [] @ replicate (Suc (Suc 0)) req)"
      apply (rule api_error_not_retried [where ro=ro and rW="\<lparr>Err = Some e0, Payload = None\<rparr>" and k="Suc 0" and req=req
            and res="\<lparr>StatusCode = 200, RespBody = ''{error}''\<rparr>", THEN conjunct2, THEN conjunct2, THEN conjunct2, THEN conjunct2, THEN conjunct2, THEN conjunct2, THEN conjunct2, THEN conjunct2, THEN conjunct1, THEN mp])
      using rq ro apply (simp add: run_defs)
      done
    then show ?thesis by simp
  qed
  have w9: "fst (BlockListPagingIterator_Value env0 query_block (dec0 :: BlockListResult decoder) Background (BlockService_All Background (block_service (scripted [Failed ''reset'', ok ''{error}''])) (blist0 [])) []) = (None, Some (APIErr e0)) \<and>
    fst (snd (BlockListPagingIterator_Value env0 query_block (dec0 :: BlockListResult decoder) Background (BlockService_All Background (block_service (scripted [Failed ''reset'', ok ''{error}''])) (blist0 [])) [])) = (BlockService_All Background (block_service (scripted [Failed ''reset'', ok ''{error}''])) (blist0 [])) \<and>
    length (snd (snd (BlockListPagingIterator_Value env0 query_block (dec0 :: BlockListResult decoder) Background (BlockService_All Background (block_service (scripted [Failed ''reset'', ok ''{error}''])) (blist0 [])) []))) = 2"
  proof -
    obtain req where rq: "BlockListPagingIterator_Value_request env0 query_block Background (BlockService_All Background (block_service (scripted [Failed ''reset'', ok ''{error}''])) (blist0 [])) = Inr req"
      by (simp add: build_defs)
    have "BlockListPagingIterator_Value env0 query_block (dec0 :: BlockListResult decoder) Background (BlockService_All Background (block_service (scripted [Failed ''reset'', ok ''{error}''])) (blist0 [])) [] =
            ((None, Some (APIErr e0)), (BlockService_All Background (block_service (scripted [Failed ''reset'', ok ''{error}''])) (blist0 [])), [] @ replicate (Suc (Suc 0)) req)"
      apply (rule api_error_not_retried [where rL="\<lparr>Err = Some e0, Payload = None\<rparr>" and k="Suc 0" and req=req
            and res="\<lparr>StatusCode = 200, RespBody = ''{error}''\<rparr>", THEN conjunct2, THEN conjunct2, THEN conjunct2, THEN conjunct2, THEN conjunct2, THEN conjunct2, THEN conjunct2, THEN conjunct2, THEN conjunct2, THEN conjunct1, THEN mp])
      using rq apply (simp add: run_defs)
      done
    then show ?thesis by simp
  qed
  have w10: "fst (WebhookListPagingIterator_Value env0 query_webhook (dec0 :: unit WebhookListResult decoder) Background (WebhookService_All Background (webhook_service (scripted [Failed ''reset'', ok ''{error}''])) (wlist0 []) :: unit WebhookListPagingIterator) []) = (None, Some (APIErr e0)) \<and>
    fst (snd (WebhookListPagingIterator_Value env0 query_webhook (dec0 :: unit WebhookListResult decoder) Background (WebhookService_All Background (webhook_service (scripted [Failed ''reset'', ok ''{error}''])) (wlist0 []) :: unit WebhookListPagingIterator) [])) = (WebhookService_All Background (webhook_service (scripted [Failed ''reset'', ok ''{error}''])) (wlist0 []) :: unit WebhookListPagingIterator) \<and>
    length (snd (snd (WebhookListPagingIterator_Value env0 query_webhook (dec0 :: unit WebhookListResult decoder) Background (WebhookService_All Background (webhook_service (scripted [Failed ''reset'', ok ''{error}''])) (wlist0 []) :: unit WebhookListPagingIterator) []))) = 2"
  proof -
    obtain req where rq: "WebhookListPagingIterator_Value_request env0 query_webhook Background (WebhookService_All Background (webhook_service (scripted [Failed ''reset'', ok ''{error}''])) (wlist0 []) :: unit WebhookListPagingIterator) = Inr req"
      by (simp add: build_defs)
    have "WebhookListPagingIterator_Value env0 query_webhook (dec0 :: unit WebhookListResult decoder) Background (WebhookService_All Background (webhook_service (scripted [Failed ''reset'', ok ''{error}''])) (wlist0 []) :: unit WebhookListPagingIterator) [] =
            ((None, Some (APIErr e0)), (WebhookService_All Background (webhook_service (scripted [Failed ''reset'', ok ''{error}''])) (wlist0 []) :: unit WebhookListPagingIterator), [] @ replicate (Suc (Suc 0)) req)"
      apply (rule api_error_not_retried [where rWL="\<lparr>Err = Some e0, Payload = None\<rparr>" and k="Suc 0" and req=req
            and res="\<lparr>StatusCode = 200, RespBody = ''{error}''\<rparr>", THEN conjunct2, THEN conjunct2, THEN conjunct2, THEN conjunct2, THEN conjunct2, THEN conjunct2, THEN conjunct2, THEN conjunct2, THEN conjunct2, THEN conjunct2, THEN mp])
      using rq apply (simp add: run_defs)
      done
    then show ?thesis by simp
  qed
  show ?thesis
    by (intro conjI w0 w1 w2 w3 w4 w5 w6 w7 w8 w9 w10)
qed


text \<open>
  Claim C2. For every paginator, \<open>Next\<close> returns true exactly when no page has been fetched
  yet (\<open>response\<close> is nil) or the stored cursor is not empty; it returns false exactly when a
  page has been fetched and the stored cursor is the empty string.
\<close>

theorem next_iff:
  "BlockListPagingIterator_Next c =
     (BlockListPagingIterator.response c = None \<or> BlockListPagingIterator.cursor c \<noteq> []) \<and>
   (\<not> BlockListPagingIterator_Next c) =
     (BlockListPagingIterator.response c \<noteq> None \<and> BlockListPagingIterator.cursor c = []) \<and>
   WebhookListPagingIterator_Next w =
     (WebhookListPagingIterator.response w = None \<or> WebhookListPagingIterator.cursor w \<noteq> []) \<and>
   (\<not> WebhookListPagingIterator_Next w) =
     (WebhookListPagingIterator.response w \<noteq> None \<and> WebhookListPagingIterator.cursor w = [])"
  by (auto simp: BlockListPagingIterator_Next_def WebhookListPagingIterator_Next_def)

text \<open>
  Witness for C2. A fresh paginator, one with a cursor, and an exhausted one.
\<close>

theorem next_iff_witness:
  "BlockListPagingIterator_Next (biter (scripted []) [] None) \<and>
   BlockListPagingIterator_Next (biter (scripted []) ''A'' (Some (bpage ''A''))) \<and>
   \<not> BlockListPagingIterator_Next (biter (scripted []) [] (Some (bpage []))) \<and>
   WebhookListPagingIterator_Next (witer (scripted []) [] None) \<and>
   WebhookListPagingIterator_Next (witer (scripted []) ''A'' (Some (wpage ''A''))) \<and>
   \<not> WebhookListPagingIterator_Next (witer (scripted []) [] (Some (wpage [])))"
  using next_iff [of "biter (scripted []) [] None" "witer (scripted []) [] None"]
        next_iff [of "biter (scripted []) ''A'' (Some (bpage ''A''))" "witer (scripted []) ''A'' (Some (wpage ''A''))"]
        next_iff [of "biter (scripted []) [] (Some (bpage []))" "witer (scripted []) [] (Some (wpage []))"]
  by (simp add: biter_def witer_def)


text \<open>
  Claim C3. For a paginator that has fetched a page and holds the empty cursor, \<open>Value\<close>
  returns the cached page with a nil error, leaves the paginator as it is and hands no
  request to the client; a further call, on what the first one leaves, does the same.
\<close>

theorem exhausted_value_rereads:
  "((BlockListPagingIterator.cursor c = [] \<and> BlockListPagingIterator.response c = Some page) \<longrightarrow>
      BlockListPagingIterator_Value env qvB decL ctx c sent = ((Some page, None), c, sent) \<and>
      BlockListPagingIterator_Value env qvB decL ctx'
        (fst (snd (BlockListPagingIterator_Value env qvB decL ctx c sent)))
        (snd (snd (BlockListPagingIterator_Value env qvB decL ctx c sent))) =
        ((Some page, None), c, sent)) \<and>
   ((WebhookListPagingIterator.cursor w = [] \<and> WebhookListPagingIterator.response w = Some wp) \<longrightarrow>
      WebhookListPagingIterator_Value env qvW decWL ctx w sent = ((Some wp, None), w, sent) \<and>
      WebhookListPagingIterator_Value env qvW decWL ctx'
        (fst (snd (WebhookListPagingIterator_Value env qvW decWL ctx w sent)))
        (snd (snd (WebhookListPagingIterator_Value env qvW decWL ctx w sent))) =
        ((Some wp, None), w, sent))"
  by (simp add: BlockListPagingIterator_Value_def WebhookListPagingIterator_Value_def
        BlockListPagingIterator_Next_def WebhookListPagingIterator_Next_def)

text \<open>
  Witness for C3. An exhausted paginator over a client that would refuse every connection.
\<close>

theorem exhausted_value_rereads_witness:
  "BlockListPagingIterator_Value env0 query_block dec0 Background
     (biter (scripted []) [] (Some (bpage []))) [] =
     ((Some (bpage []), None), biter (scripted []) [] (Some (bpage [])), []) \<and>
   WebhookListPagingIterator_Value env0 query_webhook dec0 Background
     (witer (scripted []) [] (Some (wpage []))) [] =
     ((Some (wpage []), None), witer (scripted []) [] (Some (wpage [])), [])"
  using exhausted_value_rereads [of "biter (scripted []) [] (Some (bpage []))" "bpage []"
          env0 query_block dec0 Background "[]" Background
          "witer (scripted []) [] (Some (wpage []))" "wpage []" query_webhook dec0]
  by (simp add: biter_def witer_def)


text \<open>
  Claim C4. The claim fails for the paginator. The request of \<open>Value\<close> carries
  \<open>Authorization\<close> and \<open>GoCardless-Version\<close> only: the client identification headers and
  \<open>User-Agent\<close> are not set, while \<open>List\<close>, for the same endpoint, sets all of them.
\<close>

theorem paginator_request_lacks_client_headers:
  "map (\<lambda>r. (Header_Get env0 r ''Authorization'', Header_Get env0 r ''GoCardless-Version'',
              Header_Get env0 r ''GoCardless-Client-Library'',
              Header_Get env0 r ''GoCardless-Client-Version'', Header_Get env0 r ''User-Agent''))
     (snd (snd (BlockListPagingIterator_Value env0 query_block (dec_ok (bpage [])) Background
                  (biter (scripted [ok ''{data}'']) [] None) []))) =
     [(Some ''Bearer tok'', Some ''2015-07-06'', None, None, None)] \<and>
   map (\<lambda>r. (Header_Get env0 r ''Authorization'', Header_Get env0 r ''GoCardless-Version'',
              Header_Get env0 r ''GoCardless-Client-Library'',
              Header_Get env0 r ''GoCardless-Client-Version'', Header_Get env0 r ''User-Agent''))
     (snd (snd (WebhookListPagingIterator_Value env0 query_webhook (dec_ok (wpage [])) Background
                  (witer (scripted [ok ''{data}'']) [] None) []))) =
     [(Some ''Bearer tok'', Some ''2015-07-06'', None, None, None)] \<and>
   map (\<lambda>r. (Header_Get env0 r ''Authorization'', Header_Get env0 r ''GoCardless-Version'',
              Header_Get env0 r ''GoCardless-Client-Library'',
              Header_Get env0 r ''GoCardless-Client-Version'', Header_Get env0 r ''User-Agent''))
     (snd (BlockService_List env0 query_block (dec_ok (bpage [])) Background
             (block_service (scripted [ok ''{data}''])) (blist0 []) [] [])) =
     [(Some ''Bearer tok'', Some ''2015-07-06'', Some ''<no value>'', Some ''1.0.0'',
       Some ''gocardless-pro-go/1.0.0'')]"
  by (simp add: BlockListPagingIterator_Value_def WebhookListPagingIterator_Value_def
        BlockService_List_def BlockListPagingIterator_Next_def
        WebhookListPagingIterator_Next_def biter_def witer_def build_defs eval_defs dec_ok_def
        header_defs)


text \<open>
  Claim C5. In every call: when the response that is decoded has status 200 and the decoded
  envelope has its \<open>error\<close> populated, the call returns no payload and that API error, whether
  or not the envelope holds a payload as well.
\<close>

theorem api_error_in_200_fails:
  "((BlockService_Create_request env jeC ctx s pC opts = Inr (req, ro) \<and> int k < retries ro \<and>
      final_envelope (choose_client env (BlockService.client s)) decB req sent k res rB \<and>
      StatusCode res = 200 \<and> Err rB = Some e) \<longrightarrow>
     fst (BlockService_Create env jeC decB ctx s pC opts sent) = (None, Some (APIErr e))) \<and>
   ((BlockService_Get_request env ctx s ident opts = Inr (req, ro) \<and> int k < retries ro \<and>
      final_envelope (choose_client env (BlockService.client s)) decB req sent k res rB \<and>
      StatusCode res = 200 \<and> Err rB = Some e) \<longrightarrow>
     fst (BlockService_Get env decB ctx s ident opts sent) = (None, Some (APIErr e))) \<and>
   ((BlockService_List_request env qvB ctx s pL opts = Inr (req, ro) \<and> int k < retries ro \<and>
      final_envelope (choose_client env (BlockService.client s)) decL req sent k res rL \<and>
      StatusCode res = 200 \<and> Err rL = Some e) \<longrightarrow>
     fst (BlockService_List env qvB decL ctx s pL opts sent) = (None, Some (APIErr e))) \<and>
   ((BlockService_Disable_request env ctx s ident opts = Inr (req, ro) \<and> int k < retries ro \<and>
      final_envelope (choose_client env (BlockService.client s)) decB req sent k res rB \<and>
      StatusCode res = 200 \<and> Err rB = Some e) \<longrightarrow>
     fst (BlockService_Disable env decB ctx s ident opts sent) = (None, Some (APIErr e))) \<and>
   ((BlockService_Enable_request env ctx s ident opts = Inr (req, ro) \<and> int k < retries ro \<and>
      final_envelope (choose_client env (BlockService.client s)) decB req sent k res rB \<and>
      StatusCode res = 200 \<and> Err rB = Some e) \<longrightarrow>
     fst (BlockService_Enable env decB ctx s ident opts sent) = (None, Some (APIErr e))) \<and>
   ((BlockService_BlockByRef_request env jeR ctx s pR opts = Inr (req, ro) \<and> int k < retries ro \<and>
      final_envelope (choose_client env (BlockService.client s)) decR req sent k res rR \<and>
      StatusCode res = 200 \<and> Err rR = Some e) \<longrightarrow>
     fst (BlockService_BlockByRef env jeR decR ctx s pR opts sent) = (None, Some (APIErr e))) \<and>
   ((WebhookService_List_request env qvW ctx w pW opts = Inr (req, ro) \<and> int k < retries ro \<and>
      final_envelope (choose_client env (WebhookService.client w)) decWL req sent k res rWL \<and>
      StatusCode res = 200 \<and> Err rWL = Some e) \<longrightarrow>
     fst (WebhookService_List env qvW decWL ctx w pW opts sent) = (None, Some (APIErr e))) \<and>
   ((WebhookService_Get_request env ctx w ident opts = Inr (req, ro) \<and> int k < retries ro \<and>
      final_envelope (choose_client env (WebhookService.client w)) decW req sent k res rW \<and>
      StatusCode res = 200 \<and> Err rW = Some e) \<longrightarrow>
     fst (WebhookService_Get env decW ctx w ident opts sent) = (None, Some (APIErr e))) \<and>
   ((WebhookService_Retry_request env ctx w ident opts = Inr (req, ro) \<and> int k < retries ro \<and>
      final_envelope (choose_client env (WebhookService.client w)) decW req sent k res rW \<and>
      StatusCode res = 200 \<and> Err rW = Some e) \<longrightarrow>
     fst (WebhookService_Retry env decW ctx w ident opts sent) = (None, Some (APIErr e))) \<and>
   ((BlockListPagingIterator_Next c \<and> BlockListPagingIterator_Value_request env qvB ctx c = Inr req \<and> k < 3 \<and>
      final_envelope (choose_client env (BlockService.client (BlockListPagingIterator.service c))) decL req sent k res rL \<and>
      StatusCode res = 200 \<and> Err rL = Some e) \<longrightarrow>
     fst (BlockListPagingIterator_Value env qvB decL ctx c sent) = (None, Some (APIErr e))) \<and>
   ((WebhookListPagingIterator_Next wc \<and> WebhookListPagingIterator_Value_request env qvW ctx wc = Inr req \<and> k < 3 \<and>
      final_envelope (choose_client env (WebhookService.client (WebhookListPagingIterator.service wc))) decWL req sent k res rWL \<and>
      StatusCode res = 200 \<and> Err rWL = Some e) \<longrightarrow>
     fst (WebhookListPagingIterator_Value env qvW decWL ctx wc sent) = (None, Some (APIErr e)))"
  apply (intro conjI impI)
            apply (auto simp: service_defs result_or_missing_def dest!: do_attempts_final)[9]
   apply (auto simp: value_defs dest!: do_attempts_final3)
  done

text \<open>
  Witness for C5. The first response has status 200 and a body with both the API error and a
  payload.
\<close>

theorem api_error_in_200_fails_witness:
  "(fst (BlockService_Create env0 json0 (dec_both (block0)) Background (block_service (scripted [ok ''{error,data}''])) create0 [] []) =
    (None, Some (APIErr e0))) \<and>
   (fst (BlockService_Get env0 (dec_both (block0)) Background (block_service (scripted [ok ''{error,data}''])) ''BLC1'' [] []) =
    (None, Some (APIErr e0))) \<and>
   (fst (BlockService_List env0 query_block (dec_both (bpage [])) Background (block_service (scripted [ok ''{error,data}''])) (blist0 []) [] []) =
    (None, Some (APIErr e0))) \<and>
   (fst (BlockService_Disable env0 (dec_both (block0)) Background (block_service (scripted [ok ''{error,data}''])) ''BLC1'' [] []) =
    (None, Some (APIErr e0))) \<and>
   (fst (BlockService_Enable env0 (dec_both (block0)) Background (block_service (scripted [ok ''{error,data}''])) ''BLC1'' [] []) =
    (None, Some (APIErr e0))) \<and>
   (fst (BlockService_BlockByRef env0 json0 (dec_both (byrefres0)) Background (block_service (scripted [ok ''{error,data}''])) byref0 [] []) =
    (None, Some (APIErr e0))) \<and>
   (fst (WebhookService_List env0 query_webhook (dec_both (wpage [])) Background (webhook_service (scripted [ok ''{error,data}''])) (wlist0 []) [] []) =
    (None, Some (APIErr e0))) \<and>
   (fst (WebhookService_Get env0 (dec_both (webhook0)) Background (webhook_service (scripted [ok ''{error,data}''])) ''WB1'' [] []) =
    (None, Some (APIErr e0))) \<and>
   (fst (WebhookService_Retry env0 (dec_both (webhook0)) Background (webhook_service (scripted [ok ''{error,data}''])) ''WB1'' [] []) =
    (None, Some (APIErr e0))) \<and>
   (fst (BlockListPagingIterator_Value env0 query_block (dec_both (bpage [])) Background (BlockService_All Background (block_service (scripted [ok ''{error,data}''])) (blist0 [])) []) =
    (None, Some (APIErr e0))) \<and>
   (fst (WebhookListPagingIterator_Value env0 query_webhook (dec_both (wpage [])) Background (WebhookService_All Background (webhook_service (scripted [ok ''{error,data}''])) (wlist0 []) :: unit WebhookListPagingIterator) []) =
    (None, Some (APIErr e0)))"
proof -
  have w0: "fst (BlockService_Create env0 json0 (dec_both (block0)) Background (block_service (scripted [ok ''{error,data}''])) create0 [] []) =
    (None, Some (APIErr e0))"
  proof -
    obtain req ro where rq: "BlockService_Create_request env0 json0 Background (block_service (scripted [ok ''{error,data}''])) create0 [] = Inr (req, ro)" and ro: "retries ro = 3"
      by (simp add: build_defs)
    have "fst (BlockService_Create env0 json0 (dec_both (block0)) Background (block_service (scripted [ok ''{error,data}''])) create0 [] []) =
            (None, Some (APIErr e0))"
      apply (rule api_error_in_200_fails [where ro=ro and rB="\<lparr>Err = Some e0, Payload = Some (block0)\<rparr>" and k="0" and req=req
            and res="\<lparr>StatusCode = 200, RespBody = ''{error,data}''\<rparr>", THEN conjunct1, THEN mp])
      using rq ro apply (simp add: run_defs)
      done
    then show ?thesis by simp
  qed
  have w1: "fst (BlockService_Get env0 (dec_both (block0)) Background (block_service (scripted [ok ''{error,data}''])) ''BLC1'' [] []) =
    (None, Some (APIErr e0))"
  proof -
    obtain req ro where rq: "BlockService_Get_request env0 Background (block_service (scripted [ok ''{error,data}''])) ''BLC1'' [] = Inr (req, ro)" and ro: "retries ro = 3"
      by (simp add: build_defs)
    have "fst (BlockService_Get env0 (dec_both (block0)) Background (block_service (scripted [ok ''{error,data}''])) ''BLC1'' [] []) =
            (None, Some (APIErr e0))"
      apply (rule api_error_in_200_fails [where ro=ro and rB="\<lparr>Err = Some e0, Payload = Some (block0)\<rparr>" and k="0" and req=req
            and res="\<lparr>StatusCode = 200, RespBody = ''{error,data}''\<rparr>", THEN conjunct2, THEN conjunct1, THEN mp])
      using rq ro apply (simp add: run_defs)
      done
    then show ?thesis by simp
  qed
  have w2: "fst (BlockService_List env0 query_block (dec_both (bpage [])) Background (block_service (scripted [ok ''{error,data}''])) (blist0 []) [] []) =
    (None, Some (APIErr e0))"
  proof -
    obtain req ro where rq: "BlockService_List_request env0 query_block Background (block_service (scripted [ok ''{error,data}''])) (blist0 []) [] = Inr (req, ro)" and ro: "retries ro = 3"
      by (simp add: build_defs)
    have "fst (BlockService_List env0 query_block (dec_both (bpage [])) Background (block_service (scripted [ok ''{error,data}''])) (blist0 []) [] []) =
            (None, Some (APIErr e0))"
      apply (rule api_error_in_200_fails [where ro=ro and rL="\<lparr>Err = Some e0, Payload = Some (bpage [])\<rparr>" and k="0" and req=req
            and res="\<lparr>StatusCode = 200, RespBody = ''{error,data}''\<rparr>", THEN conjunct2, THEN conjunct2, THEN conjunct1, THEN mp])
      using rq ro apply (simp add: run_defs)
      done
    then show ?thesis by simp
  qed
  have w3: "fst (BlockService_Disable env0 (dec_both (block0)) Background (block_service (scripted [ok ''{error,data}''])) ''BLC1'' [] []) =
    (None, Some (APIErr e0))"
  proof -
    obtain req ro where rq: "BlockService_Disable_request env0 Background (block_service (scripted [ok ''{error,data}''])) ''BLC1'' [] = Inr (req, ro)" and ro: "retries ro = 3"
      by (simp add: build_defs)
    have "fst (BlockService_Disable env0 (dec_both (block0)) Background (block_service (scripted [ok ''{error,data}''])) ''BLC1'' [] []) =
            (None, Some (APIErr e0))"
      apply (rule api_error_in_200_fails [where ro=ro and rB="\<lparr>Err = Some e0, Payload = Some (block0)\<rparr>" and k="0" and req=req
            and res="\<lparr>StatusCode = 200, RespBody = ''{error,data}''\<rparr>", THEN conjunct2, THEN conjunct2, THEN conjunct2, THEN conjunct1, THEN mp])
      using rq ro apply (simp add: run_defs)
      done
    then show ?thesis by simp
  qed
  have w4: "fst (BlockService_Enable env0 (dec_both (block0)) Background (block_service (scripted [ok ''{error,data}''])) ''BLC1'' [] []) =
    (None, Some (APIErr e0))"
  proof -
    obtain req ro where rq: "BlockService_Enable_request env0 Background (block_service (scripted [ok ''{error,data}''])) ''BLC1'' [] = Inr (req, ro)" and ro: "retries ro = 3"
      by (simp add: build_defs)
    have "fst (BlockService_Enable env0 (dec_both (block0)) Background (block_service (scripted [ok ''{error,data}''])) ''BLC1'' [] []) =
            (None, Some (APIErr e0))"
      apply (rule api_error_in_200_fails [where ro=ro and rB="\<lparr>Err = Some e0, Payload = Some (block0)\<rparr>" and k="0" and req=req
            and res="\<lparr>StatusCode = 200, RespBody = ''{error,data}''\<rparr>", THEN conjunct2, THEN conjunct2, THEN conjunct2, THEN conjunct2, THEN conjunct1, THEN mp])
      using rq ro apply (simp add: run_defs)
      done
    then show ?thesis by simp
  qed
  have w5: "fst (BlockService_BlockByRef env0 json0 (dec_both (byrefres0)) Background (block_service (scripted [ok ''{error,data}''])) byref0 [] []) =
    (None, Some (APIErr e0))"
  proof -
    obtain req ro where rq: "BlockService_BlockByRef_request env0 json0 Background (block_service (scripted [ok ''{error,data}''])) byref0 [] = Inr (req, ro)" and ro: "retries ro = 3"
      by (simp add: build_defs)
    have "fst (BlockService_BlockByRef env0 json0 (dec_both (byrefres0)) Background (block_service (scripted [ok ''{error,data}''])) byref0 [] []) =
            (None, Some (APIErr e0))"
      apply (rule api_error_in_200_fails [where ro=ro and rR="\<lparr>Err = Some e0, Payload = Some (byrefres0)\<rparr>" and k="0" and req=req
            and res="\<lparr>StatusCode = 200, RespBody = ''{error,data}''\<rparr>", THEN conjunct2, THEN conjunct2, THEN conjunct2, THEN conjunct2, THEN conjunct2, THEN conjunct1, THEN mp])
      using rq ro apply (simp add: run_defs)
      done
    then show ?thesis by simp
  qed
  have w6: "fst (WebhookService_List env0 query_webhook (dec_both (wpage [])) Background (webhook_service (scripted [ok ''{error,data}''])) (wlist0 []) [] []) =
    (None, Some (APIErr e0))"
  proof -
    obtain req ro where rq: "WebhookService_List_request env0 query_webhook Background (webhook_service (scripted [ok ''{error,data}''])) (wlist0 []) [] = Inr (req, ro)" and ro: "retries ro = 3"
      by (simp add: build_defs)
    have "fst (WebhookService_List env0 query_webhook (dec_both (wpage [])) Background (webhook_service (scripted [ok ''{error,data}''])) (wlist0 []) [] []) =
            (None, Some (APIErr e0))"
      apply (rule api_error_in_200_fails [where ro=ro and rWL="\<lparr>Err = Some e0, Payload = Some (wpage [])\<rparr>" and k="0" and req=req
            and res="\<lparr>StatusCode = 200, RespBody = ''{error,data}''\<rparr>", THEN conjunct2, THEN conjunct2, THEN conjunct2, THEN conjunct2, THEN conjunct2, THEN conjunct2, THEN conjunct1, THEN mp])
      using rq ro apply (simp add: run_defs)
      done
    then show ?thesis by simp
  qed
  have w7: "fst (WebhookService_Get env0 (dec_both (webhook0)) Background (webhook_service (scripted [ok ''{error,data}''])) ''WB1'' [] []) =
    (None, Some (APIErr e0))"
  proof -
    obtain req ro where rq: "WebhookService_Get_request env0 Background (webhook_service (scripted [ok ''{error,data}''])) ''WB1'' [] = Inr (req, ro)" and ro: "retries ro = 3"
      by (simp add: build_defs)
    have "fst (WebhookService_Get env0 (dec_both (webhook0)) Background (webhook_service (scripted [ok ''{error,data}''])) ''WB1'' [] []) =
            (None, Some (APIErr e0))"
      apply (rule api_error_in_200_fails [where ro=ro and rW="\<lparr>Err = Some e0, Payload = Some (webhook0)\<rparr>" and k="0" and req=req
            and res="\<lparr>StatusCode = 200, RespBody = ''{error,data}''\<rparr>", THEN conjunct2, THEN conjunct2, THEN conjunct2, THEN conjunct2, THEN conjunct2, THEN conjunct2, THEN conjunct2, THEN conjunct1, THEN mp])
      using rq ro apply (simp add: run_defs)
      done
    then show ?thesis by simp
  qed
  have w8: "fst (WebhookService_Retry env0 (dec_both (webhook0)) Background (webhook_service (scripted [ok ''{error,data}''])) ''WB1'' [] []) =
    (None, Some (APIErr e0))"
  proof -
    obtain req ro where rq: "WebhookService_Retry_request env0 Background (webhook_service (scripted [ok ''{error,data}''])) ''WB1'' [] = Inr (req, ro)" and ro: "retries ro = 3"
      by (simp add: build_defs)
    have "fst (WebhookService_Retry env0 (dec_both (webhook0)) Background (webhook_service (scripted [ok ''{error,data}''])) ''WB1'' [] []) =
            (None, Some (APIErr e0))"
      apply (rule api_error_in_200_fails [where ro=ro and rW="\<lparr>Err = Some e0, Payload = Some (webhook0)\<rparr>" and k="0" and req=req
            and res="\<lparr>StatusCode = 200, RespBody = ''{error,data}''\<rparr>", THEN conjunct2, THEN conjunct2, THEN conjunct2, THEN conjunct2, THEN conjunct2, THEN conjunct2, THEN conjunct2, THEN conjunct2, THEN conjunct1, THEN mp])
      using rq ro apply (simp add: run_defs)
      done
    then show ?thesis by simp
  qed
  have w9: "fst (BlockListPagingIterator_Value env0 query_block (dec_both (bpage [])) Background (BlockService_All Background (block_service (scripted [ok ''{error,data}''])) (blist0 [])) []) =
    (None, Some (APIErr e0))"
  proof -
    obtain req where rq: "BlockListPagingIterator_Value_request env0 query_block Background (BlockService_All Background (block_service (scripted [ok ''{error,data}''])) (blist0 [])) = Inr req"
      by (simp add: build_defs)
    have "fst (BlockListPagingIterator_Value env0 query_block (dec_both (bpage [])) Background (BlockService_All Background (block_service (scripted [ok ''{error,data}''])) (blist0 [])) []) =
            (None, Some (APIErr e0))"
      apply (rule api_error_in_200_fails [where rL="\<lparr>Err = Some e0, Payload = Some (bpage [])\<rparr>" and k="0" and req=req
            and res="\<lparr>StatusCode = 200, RespBody = ''{error,data}''\<rparr>", THEN conjunct2, THEN conjunct2, THEN conjunct2, THEN conjunct2, THEN conjunct2, THEN conjunct2, THEN conjunct2, THEN conjunct2, THEN conjunct2, THEN conjunct1, THEN mp])
      using rq apply (simp add: run_defs)
      done
    then show ?thesis by simp
  qed
  have w10: "fst (WebhookListPagingIterator_Value env0 query_webhook (dec_both (wpage [])) Background (WebhookService_All Background (webhook_service (scripted [ok ''{error,data}''])) (wlist0 []) :: unit WebhookListPagingIterator) []) =
    (None, Some (APIErr e0))"
  proof -
    obtain req where rq: "WebhookListPagingIterator_Value_request env0 query_webhook Background (WebhookService_All Background (webhook_service (scripted [ok ''{error,data}''])) (wlist0 []) :: unit WebhookListPagingIterator) = Inr req"
      by (simp add: build_defs)
    have "fst (WebhookListPagingIterator_Value env0 query_webhook (dec_both (wpage [])) Background (WebhookService_All Background (webhook_service (scripted [ok ''{error,data}''])) (wlist0 []) :: unit WebhookListPagingIterator) []) =
            (None, Some (APIErr e0))"
      apply (rule api_error_in_200_fails [where rWL="\<lparr>Err = Some e0, Payload = Some (wpage [])\<rparr>" and k="0" and req=req
            and res="\<lparr>StatusCode = 200, RespBody = ''{error,data}''\<rparr>", THEN conjunct2, THEN conjunct2, THEN conjunct2, THEN conjunct2, THEN conjunct2, THEN conjunct2, THEN conjunct2, THEN conjunct2, THEN conjunct2, THEN conjunct2, THEN mp])
      using rq apply (simp add: run_defs)
      done
    then show ?thesis by simp
  qed
  show ?thesis
    by (intro conjI w0 w1 w2 w3 w4 w5 w6 w7 w8 w9 w10)
qed


text \<open>
  Claim C6. In every call: when the decoded envelope has neither its \<open>error\<close> nor its payload
  populated, the call returns the error "missing result", and the request of the attempt
  that decoded the envelope is the last one handed to the client (the paginator is left as it
  was).
\<close>

theorem missing_result_not_retried:
  "((BlockService_Create_request env jeC ctx s pC opts = Inr (req, ro) \<and> int k < retries ro \<and>
      final_envelope (choose_client env (BlockService.client s)) decB req sent k res rB \<and>
      Err rB = None \<and> Payload rB = None) \<longrightarrow>
     BlockService_Create env jeC decB ctx s pC opts sent = ((None, Some MissingResult), sent @ replicate (Suc k) req)) \<and>
   ((BlockService_Get_request env ctx s ident opts = Inr (req, ro) \<and> int k < retries ro \<and>
      final_envelope (choose_client env (BlockService.client s)) decB req sent k res rB \<and>
      Err rB = None \<and> Payload rB = None) \<longrightarrow>
     BlockService_Get env decB ctx s ident opts sent = ((None, Some MissingResult), sent @ replicate (Suc k) req)) \<and>
   ((BlockService_List_request env qvB ctx s pL opts = Inr (req, ro) \<and> int k < retries ro \<and>
      final_envelope (choose_client env (BlockService.client s)) decL req sent k res rL \<and>
      Err rL = None \<and> Payload rL = None) \<longrightarrow>
     BlockService_List env qvB decL ctx s pL opts sent = ((None, Some MissingResult), sent @ replicate (Suc k) req)) \<and>
   ((BlockService_Disable_request env ctx s ident opts = Inr (req, ro) \<and> int k < retries ro \<and>
      final_envelope (choose_client env (BlockService.client s)) decB req sent k res rB \<and>
      Err rB = None \<and> Payload rB = None) \<longrightarrow>
     BlockService_Disable env decB ctx s ident opts sent = ((None, Some MissingResult), sent @ replicate (Suc k) req)) \<and>
   ((BlockService_Enable_request env ctx s ident opts = Inr (req, ro) \<and> int k < retries ro \<and>
      final_envelope (choose_client env (BlockService.client s)) decB req sent k res rB \<and>
      Err rB = None \<and> Payload rB = None) \<longrightarrow>
     BlockService_Enable env decB ctx s ident opts sent = ((None, Some MissingResult), sent @ replicate (Suc k) req)) \<and>
   ((BlockService_BlockByRef_request env jeR ctx s pR opts = Inr (req, ro) \<and> int k < retries ro \<and>
      final_envelope (choose_client env (BlockService.client s)) decR req sent k res rR \<and>
      Err rR = None \<and> Payload rR = None) \<longrightarrow>
     BlockService_BlockByRef env jeR decR ctx s pR opts sent = ((None, Some MissingResult), sent @ replicate (Suc k) req)) \<and>
   ((WebhookService_List_request env qvW ctx w pW opts = Inr (req, ro) \<and> int k < retries ro \<and>
      final_envelope (choose_client env (WebhookService.client w)) decWL req sent k res rWL \<and>
      Err rWL = None \<and> Payload rWL = None) \<longrightarrow>
     WebhookService_List env qvW decWL ctx w pW opts sent = ((None, Some MissingResult), sent @ replicate (Suc k) req)) \<and>
   ((WebhookService_Get_request env ctx w ident opts = Inr (req, ro) \<and> int k < retries ro \<and>
      final_envelope (choose_client env (WebhookService.client w)) decW req sent k res rW \<and>
      Err rW = None \<and> Payload rW = None) \<longrightarrow>
     WebhookService_Get env decW ctx w ident opts sent = ((None, Some MissingResult), sent @ replicate (Suc k) req)) \<and>
   ((WebhookService_Retry_request env ctx w ident opts = Inr (req, ro) \<and> int k < retries ro \<and>
      final_envelope (choose_client env (WebhookService.client w)) decW req sent k res rW \<and>
      Err rW = None \<and> Payload rW = None) \<longrightarrow>
     WebhookService_Retry env decW ctx w ident opts sent = ((None, Some MissingResult), sent @ replicate (Suc k) req)) \<and>
   ((BlockListPagingIterator_Next c \<and> BlockListPagingIterator_Value_request env qvB ctx c = Inr req \<and> k < 3 \<and>
      final_envelope (choose_client env (BlockService.client (BlockListPagingIterator.service c))) decL req sent k res rL \<and>
      Err rL = None \<and> Payload rL = None) \<longrightarrow>
     BlockListPagingIterator_Value env qvB decL ctx c sent = ((None, Some MissingResult), c, sent @ replicate (Suc k) req)) \<and>
   ((WebhookListPagingIterator_Next wc \<and> WebhookListPagingIterator_Value_request env qvW ctx wc = Inr req \<and> k < 3 \<and>
      final_envelope (choose_client env (WebhookService.client (WebhookListPagingIterator.service wc))) decWL req sent k res rWL \<and>
      Err rWL = None \<and> Payload rWL = None) \<longrightarrow>
     WebhookListPagingIterator_Value env qvW decWL ctx wc sent = ((None, Some MissingResult), wc, sent @ replicate (Suc k) req))"
  apply (intro conjI impI)
            apply (auto simp: service_defs result_or_missing_def dest!: do_attempts_final)[9]
   apply (auto simp: value_defs dest!: do_attempts_final3)
  done

text \<open>
  Witness for C6. The first attempt receives status 503 and is retried; the second receives
  status 200 and the body \<open>{}\<close>; no third attempt is made.
\<close>

theorem missing_result_not_retried_witness:
  "(fst (BlockService_Create env0 json0 (dec0 :: Block decoder) Background (block_service (scripted [unavailable, ok ''{}''])) create0 [] []) = (None, Some MissingResult) \<and>
    length (snd (BlockService_Create env0 json0 (dec0 :: Block decoder) Background (block_service (scripted [unavailable, ok ''{}''])) create0 [] [])) = 2) \<and>
   (fst (BlockService_Get env0 (dec0 :: Block decoder) Background (block_service (scripted [unavailable, ok ''{}''])) ''BLC1'' [] []) = (None, Some MissingResult) \<and>
    length (snd (BlockService_Get env0 (dec0 :: Block decoder) Background (block_service (scripted [unavailable, ok ''{}''])) ''BLC1'' [] [])) = 2) \<and>
   (fst (BlockService_List env0 query_block (dec0 :: BlockListResult decoder) Background (block_service (scripted [unavailable, ok ''{}''])) (blist0 []) [] []) = (None, Some MissingResult) \<and>
    length (snd (BlockService_List env0 query_block (dec0 :: BlockListResult decoder) Background (block_service (scripted [unavailable, ok ''{}''])) (blist0 []) [] [])) = 2) \<and>
   (fst (BlockService_Disable env0 (dec0 :: Block decoder) Background (block_service (scripted [unavailable, ok ''{}''])) ''BLC1'' [] []) = (None, Some MissingResult) \<and>
    length (snd (BlockService_Disable env0 (dec0 :: Block decoder) Background (block_service (scripted [unavailable, ok ''{}''])) ''BLC1'' [] [])) = 2) \<and>
   (fst (BlockService_Enable env0 (dec0 :: Block decoder) Background (block_service (scripted [unavailable, ok ''{}''])) ''BLC1'' [] []) = (None, Some MissingResult) \<and>
    length (snd (BlockService_Enable env0 (dec0 :: Block decoder) Background (block_service (scripted [unavailable, ok ''{}''])) ''BLC1'' [] [])) = 2) \<and>
   (fst (BlockService_BlockByRef env0 json0 (dec0 :: BlockBlockByRefResult decoder) Background (block_service (scripted [unavailable, ok ''{}''])) byref0 [] []) = (None, Some MissingResult) \<and>
    length (snd (BlockService_BlockByRef env0 json0 (dec0 :: BlockBlockByRefResult decoder) Background (block_service (scripted [unavailable, ok ''{}''])) byref0 [] [])) = 2) \<and>
   (fst (WebhookService_List env0 query_webhook (dec0 :: unit WebhookListResult decoder) Background (webhook_service (scripted [unavailable, ok ''{}''])) (wlist0 []) [] []) = (None, Some MissingResult) \<and>
    length (snd (WebhookService_List env0 query_webhook (dec0 :: unit WebhookListResult decoder) Background (webhook_service (scripted [unavailable, ok ''{}''])) (wlist0 []) [] [])) = 2) \<and>
   (fst (WebhookService_Get env0 (dec0 :: unit Webhook decoder) Background (webhook_service (scripted [unavailable, ok ''{}''])) ''WB1'' [] []) = (None, Some MissingResult) \<and>
    length (snd (WebhookService_Get env0 (dec0 :: unit Webhook decoder) Background (webhook_service (scripted [unavailable, ok ''{}''])) ''WB1'' [] [])) = 2) \<and>
   (fst (WebhookService_Retry env0 (dec0 :: unit Webhook decoder) Background (webhook_service (scripted [unavailable, ok ''{}''])) ''WB1'' [] []) = (None, Some MissingResult) \<and>
    length (snd (WebhookService_Retry env0 (dec0 :: unit Webhook decoder) Background (webhook_service (scripted [unavailable, ok ''{}''])) ''WB1'' [] [])) = 2) \<and>
   (fst (BlockListPagingIterator_Value env0 query_block (dec0 :: BlockListResult decoder) Background (BlockService_All Background (block_service (scripted [unavailable, ok ''{}''])) (blist0 [])) []) = (None, Some MissingResult) \<and>
    fst (snd (BlockListPagingIterator_Value env0 query_block (dec0 :: BlockListResult decoder) Background (BlockService_All Background (block_service (scripted [unavailable, ok ''{}''])) (blist0 [])) [])) = (BlockService_All Background (block_service (scripted [unavailable, ok ''{}''])) (blist0 [])) \<and>
    length (snd (snd (BlockListPagingIterator_Value env0 query_block (dec0 :: BlockListResult decoder) Background (BlockService_All Background (block_service (scripted [unavailable, ok ''{}''])) (blist0 [])) []))) = 2) \<and>
   (fst (WebhookListPagingIterator_Value env0 query_webhook (dec0 :: unit WebhookListResult decoder) Background (WebhookService_All Background (webhook_service (scripted [unavailable, ok ''{}''])) (wlist0 []) :: unit WebhookListPagingIterator) []) = (None, Some MissingResult) \<and>
    fst (snd (WebhookListPagingIterator_Value env0 query_webhook (dec0 :: unit WebhookListResult decoder) Background (WebhookService_All Background (webhook_service (scripted [unavailable, ok ''{}''])) (wlist0 []) :: unit WebhookListPagingIterator) [])) = (WebhookService_All Background (webhook_service (scripted [unavailable, ok ''{}''])) (wlist0 []) :: unit WebhookListPagingIterator) \<and>
    length (snd (snd (WebhookListPagingIterator_Value env0 query_webhook (dec0 :: unit WebhookListResult decoder) Background (WebhookService_All Background (webhook_service (scripted [unavailable, ok ''{}''])) (wlist0 []) :: unit WebhookListPagingIterator) []))) = 2)"
proof -
  have w0: "fst (BlockService_Create env0 json0 (dec0 :: Block decoder) Background (block_service (scripted [unavailable, ok ''{}''])) create0 [] []) = (None, Some MissingResult) \<and>
    length (snd (BlockService_Create env0 json0 (dec0 :: Block decoder) Background (block_service (scripted [unavailable, ok ''{}''])) create0 [] [])) = 2"
  proof -
    obtain req ro where rq: "BlockService_Create_request env0 json0 Background (block_service (scripted [unavailable, ok ''{}''])) create0 [] = Inr (req, ro)" and ro: "retries ro = 3"
      by (simp add: build_defs)
    have "BlockService_Create env0 json0 (dec0 :: Block decoder) Background (block_service (scripted [unavailable, ok ''{}''])) create0 [] [] =
            ((None, Some MissingResult), [] @ replicate (Suc (Suc 0)) req)"
      apply (rule missing_result_not_retried [where ro=ro and rB="\<lparr>Err = None, Payload = None\<rparr>" and k="Suc 0" and req=req
            and res="\<lparr>StatusCode = 200, RespBody = ''{}''\<rparr>", THEN conjunct1, THEN mp])
      using rq ro apply (simp add: run_defs)
      done
    then show ?thesis by simp
  qed
  have w1: "fst (BlockService_Get env0 (dec0 :: Block decoder) Background (block_service (scripted [unavailable, ok ''{}''])) ''BLC1'' [] []) = (None, Some MissingResult) \<and>
    length (snd (BlockService_Get env0 (dec0 :: Block decoder) Background (block_service (scripted [unavailable, ok ''{}''])) ''BLC1'' [] [])) = 2"
  proof -
    obtain req ro where rq: "BlockService_Get_request env0 Background (block_service (scripted [unavailable, ok ''{}''])) ''BLC1'' [] = Inr (req, ro)" and ro: "retries ro = 3"
      by (simp add: build_defs)
    have "BlockService_Get env0 (dec0 :: Block decoder) Background (block_service (scripted [unavailable, ok ''{}''])) ''BLC1'' [] [] =
            ((None, Some MissingResult), [] @ replicate (Suc (Suc 0)) req)"
      apply (rule missing_result_not_retried [where ro=ro and rB="\<lparr>Err = None, Payload = None\<rparr>" and k="Suc 0" and req=req
            and res="\<lparr>StatusCode = 200, RespBody = ''{}''\<rparr>", THEN conjunct2, THEN conjunct1, THEN mp])
      using rq ro apply (simp add: run_defs)
      done
    then show ?thesis by simp
  qed
  have w2: "fst (BlockService_List env0 query_block (dec0 :: BlockListResult decoder) Background (block_service (scripted [unavailable, ok ''{}''])) (blist0 []) [] []) = (None, Some MissingResult) \<and>
    length (snd (BlockService_List env0 query_block (dec0 :: BlockListResult decoder) Background (block_service (scripted [unavailable, ok ''{}''])) (blist0 []) [] [])) = 2"
  proof -
    obtain req ro where rq: "BlockService_List_request env0 query_block Background (block_service (scripted [unavailable, ok ''{}''])) (blist0 []) [] = Inr (req, ro)" and ro: "retries ro = 3"
      by (simp add: build_defs)
    have "BlockService_List env0 query_block (dec0 :: BlockListResult decoder) Background (block_service (scripted [unavailable, ok ''{}''])) (blist0 []) [] [] =
            ((None, Some MissingResult), [] @ replicate (Suc (Suc 0)) req)"
      apply (rule missing_result_not_retried [where ro=ro and rL="\<lparr>Err = None, Payload = None\<rparr>" and k="Suc 0" and req=req
            and res="\<lparr>StatusCode = 200, RespBody = ''{}''\<rparr>", THEN conjunct2, THEN conjunct2, THEN conjunct1, THEN mp])
      using rq ro apply (simp add: run_defs)
      done
    then show ?thesis by simp
  qed
  have w3: "fst (BlockService_Disable env0 (dec0 :: Block decoder) Background (block_service (scripted [unavailable, ok ''{}''])) ''BLC1'' [] []) = (None, Some MissingResult) \<and>
    length (snd (BlockService_Disable env0 (dec0 :: Block decoder) Background (block_service (scripted [unavailable, ok ''{}''])) ''BLC1'' [] [])) = 2"
  proof -
    obtain req ro where rq: "BlockService_Disable_request env0 Background (block_service (scripted [unavailable, ok ''{}''])) ''BLC1'' [] = Inr (req, ro)" and ro: "retries ro = 3"
      by (simp add: build_defs)
    have "BlockService_Disable env0 (dec0 :: Block decoder) Background (block_service (scripted [unavailable, ok ''{}''])) ''BLC1'' [] [] =
            ((None, Some MissingResult), [] @ replicate (Suc (Suc 0)) req)"
      apply (rule missing_result_not_retried [where ro=ro and rB="\<lparr>Err = None, Payload = None\<rparr>" and k="Suc 0" and req=req
            and res="\<lparr>StatusCode = 200, RespBody = ''{}''\<rparr>", THEN conjunct2, THEN conjunct2, THEN conjunct2, THEN conjunct1, THEN mp])
      using rq ro apply (simp add: run_defs)
      done
    then show ?thesis by simp
  qed
  have w4: "fst (BlockService_Enable env0 (dec0 :: Block decoder) Background (block_service (scripted [unavailable, ok ''{}''])) ''BLC1'' [] []) = (None, Some MissingResult) \<and>
    length (snd (BlockService_Enable env0 (dec0 :: Block decoder) Background (block_service (scripted [unavailable, ok ''{}''])) ''BLC1'' [] [])) = 2"
  proof -
    obtain req ro where rq: "BlockService_Enable_request env0 Background (block_service (scripted [unavailable, ok ''{}''])) ''BLC1'' [] = Inr (req, ro)" and ro: "retries ro = 3"
      by (simp add: build_defs)
    have "BlockService_Enable env0 (dec0 :: Block decoder) Background (block_service (scripted [unavailable, ok ''{}''])) ''BLC1'' [] [] =
            ((None, Some MissingResult), [] @ replicate (Suc (Suc 0)) req)"
      apply (rule missing_result_not_retried [where ro=ro and rB="\<lparr>Err = None, Payload = None\<rparr>" and k="Suc 0" and req=req
            and res="\<lparr>StatusCode = 200, RespBody = ''{}''\<rparr>", THEN conjunct2, THEN conjunct2, THEN conjunct2, THEN conjunct2, THEN conjunct1, THEN mp])
      using rq ro apply (simp add: run_defs)
      done
    then show ?thesis by simp
  qed
  have w5: "fst (BlockService_BlockByRef env0 json0 (dec0 :: BlockBlockByRefResult decoder) Background (block_service (scripted [unavailable, ok ''{}''])) byref0 [] []) = (None, Some MissingResult) \<and>
    length (snd (BlockService_BlockByRef env0 json0 (dec0 :: BlockBlockByRefResult decoder) Background (block_service (scripted [unavailable, ok ''{}''])) byref0 [] [])) = 2"
  proof -
    obtain req ro where rq: "BlockService_BlockByRef_request env0 json0 Background (block_service (scripted [unavailable, ok ''{}''])) byref0 [] = Inr (req, ro)" and ro: "retries ro = 3"
      by (simp add: build_defs)
    have "BlockService_BlockByRef env0 json0 (dec0 :: BlockBlockByRefResult decoder) Background (block_service (scripted [unavailable, ok ''{}''])) byref0 [] [] =
            ((None, Some MissingResult), [] @ replicate (Suc (Suc 0)) req)"
      apply (rule missing_result_not_retried [where ro=ro and rR="\<lparr>Err = None, Payload = None\<rparr>" and k="Suc 0" and req=req
            and res="\<lparr>StatusCode = 200, RespBody = ''{}''\<rparr>", THEN conjunct2, THEN conjunct2, THEN conjunct2, THEN conjunct2, THEN conjunct2, THEN conjunct1, THEN mp])
      using rq ro apply (simp add: run_defs)
      done
    then show ?thesis by simp
  qed
  have w6: "fst (WebhookService_List env0 query_webhook (dec0 :: unit WebhookListResult decoder) Background (webhook_service (scripted [unavailable, ok ''{}''])) (wlist0 []) [] []) = (None, Some MissingResult) \<and>
    length (snd (WebhookService_List env0 query_webhook (dec0 :: unit WebhookListResult decoder) Background (webhook_service (scripted [unavailable, ok ''{}''])) (wlist0 []) [] [])) = 2"
  proof -
    obtain req ro where rq: "WebhookService_List_request env0 query_webhook Background (webhook_service (scripted [unavailable, ok ''{}''])) (wlist0 []) [] = Inr (req, ro)" and ro: "retries ro = 3"
      by (simp add: build_defs)
    have "WebhookService_List env0 query_webhook (dec0 :: unit WebhookListResult decoder) Background (webhook_service (scripted [unavailable, ok ''{}''])) (wlist0 []) [] [] =
            ((None, Some MissingResult), [] @ replicate (Suc (Suc 0)) req)"
      apply (rule missing_result_not_retried [where ro=ro and rWL="\<lparr>Err = None, Payload = None\<rparr>" and k="Suc 0" and req=req
            and res="\<lparr>StatusCode = 200, RespBody = ''{}''\<rparr>", THEN conjunct2, THEN conjunct2, THEN conjunct2, THEN conjunct2, THEN conjunct2, THEN conjunct2, THEN conjunct1, THEN mp])
      using rq ro apply (simp add: run_defs)
      done
    then show ?thesis by simp
  qed
  have w7: "fst (WebhookService_Get env0 (dec0 :: unit Webhook decoder) Background (webhook_service (scripted [unavailable, ok ''{}''])) ''WB1'' [] []) = (None, Some MissingResult) \<and>
    length (snd (WebhookService_Get env0 (dec0 :: unit Webhook decoder) Background (webhook_service (scripted [unavailable, ok ''{}''])) ''WB1'' [] [])) = 2"
  proof -
    obtain req ro where rq: "WebhookService_Get_request env0 Background (webhook_service (scripted [unavailable, ok ''{}''])) ''WB1'' [] = Inr (req, ro)" and ro: "retries ro = 3"
      by (simp add: build_defs)
    have "WebhookService_Get env0 (dec0 :: unit Webhook decoder) Background (webhook_service (scripted [unavailable, ok ''{}''])) ''WB1'' [] [] =
            ((None, Some MissingResult), [] @ replicate (Suc (Suc 0)) req)"
      apply (rule missing_result_not_retried [where ro=ro and rW="\<lparr>Err = None, Payload = None\<rparr>" and k="Suc 0" and req=req
            and res="\<lparr>StatusCode = 200, RespBody = ''{}''\<rparr>", THEN conjunct2, THEN conjunct2, THEN conjunct2, THEN conjunct2, THEN conjunct2, THEN conjunct2, THEN conjunct2, THEN conjunct1, THEN mp])
      using rq ro apply (simp add: run_defs)
      done
    then show ?thesis by simp
  qed
  have w8: "fst (WebhookService_Retry env0 (dec0 :: unit Webhook decoder) Background (webhook_service (scripted [unavailable, ok ''{}''])) ''WB1'' [] []) = (None, Some MissingResult) \<and>
    length (snd (WebhookService_Retry env0 (dec0 :: unit Webhook decoder) Background (webhook_service (scripted [unavailable, ok ''{}''])) ''WB1'' [] [])) = 2"
  proof -
    obtain req ro where rq: "WebhookService_Retry_request env0 Background (webhook_service (scripted [unavailable, ok ''{}''])) ''WB1'' [] = Inr (req, ro)" and ro: "retries ro = 3"
      by (simp add: build_defs)
    have "WebhookService_Retry env0 (dec0 :: unit Webhook decoder) Background (webhook_service (scripted [unavailable, ok ''{}''])) ''WB1'' [] [] =
            ((None, Some MissingResult), [] @ replicate (Suc (Suc 0)) req)"
      apply (rule missing_result_not_retried [where ro=ro and rW="\<lparr>Err = None, Payload = None\<rparr>" and k="Suc 0" and req=req
            and res="\<lparr>StatusCode = 200, RespBody = ''{}''\<rparr>", THEN conjunct2, THEN conjunct2, THEN conjunct2, THEN conjunct2, THEN conjunct2, THEN conjunct2, THEN conjunct2, THEN conjunct2, THEN conjunct1, THEN mp])
      using rq ro apply (simp add: run_defs)
      done
    then show ?thesis by simp
  qed
  have w9: "fst (BlockListPagingIterator_Value env0 query_block (dec0 :: BlockListResult decoder) Background (BlockService_All Background (block_service (scripted [unavailable, ok ''{}''])) (blist0 [])) []) = (None, Some MissingResult) \<and>
    fst (snd (BlockListPagingIterator_Value env0 query_block (dec0 :: BlockListResult decoder) Background (BlockService_All Background (block_service (scripted [unavailable, ok ''{}''])) (blist0 [])) [])) = (BlockService_All Background (block_service (scripted [unavailable, ok ''{}''])) (blist0 [])) \<and>
    length (snd (snd (BlockListPagingIterator_Value env0 query_block (dec0 :: BlockListResult decoder) Background (BlockService_All Background (block_service (scripted [unavailable, ok ''{}''])) (blist0 [])) []))) = 2"
  proof -
    obtain req where rq: "BlockListPagingIterator_Value_request env0 query_block Background (BlockService_All Background (block_service (scripted [unavailable, ok ''{}''])) (blist0 [])) = Inr req"
      by (simp add: build_defs)
    have "BlockListPagingIterator_Value env0 query_block (dec0 :: BlockListResult decoder) Background (BlockService_All Background (block_service (scripted [unavailable, ok ''{}''])) (blist0 [])) [] =
            ((None, Some MissingResult), (BlockService_All Background (block_service (scripted [unavailable, ok ''{}''])) (blist0 [])), [] @ replicate (Suc (Suc 0)) req)"
      apply (rule missing_result_not_retried [where rL="\<lparr>Err = None, Payload = None\<rparr>" and k="Suc 0" and req=req
            and res="\<lparr>StatusCode = 200, RespBody = ''{}''\<rparr>", THEN conjunct2, THEN conjunct2, THEN conjunct2, THEN conjunct2, THEN conjunct2, THEN conjunct2, THEN conjunct2, THEN conjunct2, THEN conjunct2, THEN conjunct1, THEN mp])
      using rq apply (simp add: run_defs)
      done
    then show ?thesis by simp
  qed
  have w10: "fst (WebhookListPagingIterator_Value env0 query_webhook (dec0 :: unit WebhookListResult decoder) Background (WebhookService_All Background (webhook_service (scripted [unavailable, ok ''{}''])) (wlist0 []) :: unit WebhookListPagingIterator) []) = (None, Some MissingResult) \<and>
    fst (snd (WebhookListPagingIterator_Value env0 query_webhook (dec0 :: unit WebhookListResult decoder) Background (WebhookService_All Background (webhook_service (scripted [unavailable, ok ''{}''])) (wlist0 []) :: unit WebhookListPagingIterator) [])) = (WebhookService_All Background (webhook_service (scripted [unavailable, ok ''{}''])) (wlist0 []) :: unit WebhookListPagingIterator) \<and>
    length (snd (snd (WebhookListPagingIterator_Value env0 query_webhook (dec0 :: unit WebhookListResult decoder) Background (WebhookService_All Background (webhook_service (scripted [unavailable, ok ''{}''])) (wlist0 []) :: unit WebhookListPagingIterator) []))) = 2"
  proof -
    obtain req where rq: "WebhookListPagingIterator_Value_request env0 query_webhook Background (WebhookService_All Background (webhook_service (scripted [unavailable, ok ''{}''])) (wlist0 []) :: unit WebhookListPagingIterator) = Inr req"
      by (simp add: build_defs)
    have "WebhookListPagingIterator_Value env0 query_webhook (dec0 :: unit WebhookListResult decoder) Background (WebhookService_All Background (webhook_service (scripted [unavailable, ok ''{}''])) (wlist0 []) :: unit WebhookListPagingIterator) [] =
            ((None, Some MissingResult), (WebhookService_All Background (webhook_service (scripted [unavailable, ok ''{}''])) (wlist0 []) :: unit WebhookListPagingIterator), [] @ replicate (Suc (Suc 0)) req)"
      apply (rule missing_result_not_retried [where rWL="\<lparr>Err = None, Payload = None\<rparr>" and k="Suc 0" and req=req
            and res="\<lparr>StatusCode = 200, RespBody = ''{}''\<rparr>", THEN conjunct2, THEN conjunct2, THEN conjunct2, THEN conjunct2, THEN conjunct2, THEN conjunct2, THEN conjunct2, THEN conjunct2, THEN conjunct2, THEN conjunct2, THEN mp])
      using rq apply (simp add: run_defs)
      done
    then show ?thesis by simp
  qed
  show ?thesis
    by (intro conjI w0 w1 w2 w3 w4 w5 w6 w7 w8 w9 w10)
qed


text \<open>
  Claim C7. For every write call (\<open>Create\<close>, \<open>Disable\<close>, \<open>Enable\<close>, \<open>BlockByRef\<close>,
  \<open>Retry\<close>): when the options leave the idempotency key empty, the key of the call is the
  value of \<open>NewIdempotencyKey()\<close>; the request carries an \<open>Idempotency-Key\<close> header, which
  holds that value unless a header override of the caller names the same header; and every
  request that the call hands to the client is this one request, so that all attempts carry
  the same header.
\<close>

theorem idempotency_key_generated_and_reused:
  "((apply_options opts \<lparr>retries = 3, idempotencyKey = [], headers = []\<rparr> = Inr ro0 \<and>
      idempotencyKey ro0 = [] \<and> BlockService_Create_request env jeC ctx s pC opts = Inr (req, ro)) \<longrightarrow>
     (idempotencyKey ro = NewIdempotencyKey env \<and>
      Header_Get env req ''Idempotency-Key'' \<noteq> None \<and>
      (CanonicalHeaderKey env ''Idempotency-Key'' \<notin> CanonicalHeaderKey env ` fst ` set (headers ro0) \<longrightarrow>
         Header_Get env req ''Idempotency-Key'' = Some (NewIdempotencyKey env)) \<and>
      (\<exists>n\<le>nat (retries ro). snd (BlockService_Create env jeC decB ctx s pC opts sent) = sent @ replicate n req))) \<and>
   ((apply_options opts \<lparr>retries = 3, idempotencyKey = [], headers = []\<rparr> = Inr ro0 \<and>
      idempotencyKey ro0 = [] \<and> BlockService_Disable_request env ctx s ident opts = Inr (req, ro)) \<longrightarrow>
     (idempotencyKey ro = NewIdempotencyKey env \<and>
      Header_Get env req ''Idempotency-Key'' \<noteq> None \<and>
      (CanonicalHeaderKey env ''Idempotency-Key'' \<notin> CanonicalHeaderKey env ` fst ` set (headers ro0) \<longrightarrow>
         Header_Get env req ''Idempotency-Key'' = Some (NewIdempotencyKey env)) \<and>
      (\<exists>n\<le>nat (retries ro). snd (BlockService_Disable env decB ctx s ident opts sent) = sent @ replicate n req))) \<and>
   ((apply_options opts \<lparr>retries = 3, idempotencyKey = [], headers = []\<rparr> = Inr ro0 \<and>
      idempotencyKey ro0 = [] \<and> BlockService_Enable_request env ctx s ident opts = Inr (req, ro)) \<longrightarrow>
     (idempotencyKey ro = NewIdempotencyKey env \<and>
      Header_Get env req ''Idempotency-Key'' \<noteq> None \<and>
      (CanonicalHeaderKey env ''Idempotency-Key'' \<notin> CanonicalHeaderKey env ` fst ` set (headers ro0) \<longrightarrow>
         Header_Get env req ''Idempotency-Key'' = Some (NewIdempotencyKey env)) \<and>
      (\<exists>n\<le>nat (retries ro). snd (BlockService_Enable env decB ctx s ident opts sent) = sent @ replicate n req))) \<and>
   ((apply_options opts \<lparr>retries = 3, idempotencyKey = [], headers = []\<rparr> = Inr ro0 \<and>
      idempotencyKey ro0 = [] \<and> BlockService_BlockByRef_request env jeR ctx s pR opts = Inr (req, ro)) \<longrightarrow>
     (idempotencyKey ro = NewIdempotencyKey env \<and>
      Header_Get env req ''Idempotency-Key'' \<noteq> None \<and>
      (CanonicalHeaderKey env ''Idempotency-Key'' \<notin> CanonicalHeaderKey env ` fst ` set (headers ro0) \<longrightarrow>
         Header_Get env req ''Idempotency-Key'' = Some (NewIdempotencyKey env)) \<and>
      (\<exists>n\<le>nat (retries ro). snd (BlockService_BlockByRef env jeR decR ctx s pR opts sent) = sent @ replicate n req))) \<and>
   ((apply_options opts \<lparr>retries = 3, idempotencyKey = [], headers = []\<rparr> = Inr ro0 \<and>
      idempotencyKey ro0 = [] \<and> WebhookService_Retry_request env ctx w ident opts = Inr (req, ro)) \<longrightarrow>
     (idempotencyKey ro = NewIdempotencyKey env \<and>
      Header_Get env req ''Idempotency-Key'' \<noteq> None \<and>
      (CanonicalHeaderKey env ''Idempotency-Key'' \<notin> CanonicalHeaderKey env ` fst ` set (headers ro0) \<longrightarrow>
         Header_Get env req ''Idempotency-Key'' = Some (NewIdempotencyKey env)) \<and>
      (\<exists>n\<le>nat (retries ro). snd (WebhookService_Retry env decW ctx w ident opts sent) = sent @ replicate n req)))"
  apply (intro conjI impI)
                      apply (auto simp: request_defs service_defs http_NewRequest_def Let_def
                          result_or_missing_sent do_attempts_sent write_headers_key write_headers_key_ex
                          override_headers_defined Header_Get_Set override_headers_other
                        split: sum.splits option.splits)
  done

text \<open>
  Witness for C7. The connection is reset, then the status is 503, then the call succeeds: all three
  requests carry the generated key.
\<close>

theorem idempotency_key_generated_and_reused_witness:
  "(map (\<lambda>r. Header_Get env0 r ''Idempotency-Key'') (snd (BlockService_Create env0 json0 (dec_ok block0) Background (block_service (scripted [Failed ''reset'', unavailable, ok ''{data}''])) create0 [] [])) =
     [Some ''generated-key'', Some ''generated-key'', Some ''generated-key'']) \<and>
   (map (\<lambda>r. Header_Get env0 r ''Idempotency-Key'') (snd (BlockService_Disable env0 (dec_ok block0) Background (block_service (scripted [Failed ''reset'', unavailable, ok ''{data}''])) ''BLC1'' [] [])) =
     [Some ''generated-key'', Some ''generated-key'', Some ''generated-key'']) \<and>
   (map (\<lambda>r. Header_Get env0 r ''Idempotency-Key'') (snd (BlockService_Enable env0 (dec_ok block0) Background (block_service (scripted [Failed ''reset'', unavailable, ok ''{data}''])) ''BLC1'' [] [])) =
     [Some ''generated-key'', Some ''generated-key'', Some ''generated-key'']) \<and>
   (map (\<lambda>r. Header_Get env0 r ''Idempotency-Key'') (snd (BlockService_BlockByRef env0 json0 (dec_ok byrefres0) Background (block_service (scripted [Failed ''reset'', unavailable, ok ''{data}''])) byref0 [] [])) =
     [Some ''generated-key'', Some ''generated-key'', Some ''generated-key'']) \<and>
   (map (\<lambda>r. Header_Get env0 r ''Idempotency-Key'') (snd (WebhookService_Retry env0 (dec_ok webhook0) Background (webhook_service (scripted [Failed ''reset'', unavailable, ok ''{data}''])) ''WB1'' [] [])) =
     [Some ''generated-key'', Some ''generated-key'', Some ''generated-key''])"
proof -
  have ao: "apply_options [] \<lparr>retries = 3, idempotencyKey = [], headers = []\<rparr> =
              Inr \<lparr>retries = 3, idempotencyKey = [], headers = []\<rparr>"
    by simp
  have ik: "idempotencyKey \<lparr>retries = 3, idempotencyKey = [], headers = []\<rparr> = []"
    by simp
  have w0: "map (\<lambda>r. Header_Get env0 r ''Idempotency-Key'') (snd (BlockService_Create env0 json0 (dec_ok block0) Background (block_service (scripted [Failed ''reset'', unavailable, ok ''{data}''])) create0 [] [])) =
     [Some ''generated-key'', Some ''generated-key'', Some ''generated-key'']"
  proof -
    obtain req ro where rq: "BlockService_Create_request env0 json0 Background (block_service (scripted [Failed ''reset'', unavailable, ok ''{data}''])) create0 [] = Inr (req, ro)" and ro: "retries ro = 3"
      by (simp add: build_defs)
    have run: "snd (BlockService_Create env0 json0 (dec_ok block0) Background (block_service (scripted [Failed ''reset'', unavailable, ok ''{data}''])) create0 [] []) = [req, req, req]"
      using rq ro by (simp add: BlockService_Create_def eval_defs dec_ok_def block_service_def webhook_service_def)
    have "Header_Get env0 req ''Idempotency-Key'' = Some (NewIdempotencyKey env0)"
      by (rule idempotency_key_generated_and_reused
              [THEN conjunct1, THEN mp, OF conjI [OF ao conjI [OF ik rq]],
               THEN conjunct2, THEN conjunct2, THEN conjunct1, THEN mp]) simp
    then show ?thesis using run by (simp add: env0_def)
  qed
  have w1: "map (\<lambda>r. Header_Get env0 r ''Idempotency-Key'') (snd (BlockService_Disable env0 (dec_ok block0) Background (block_service (scripted [Failed ''reset'', unavailable, ok ''{data}''])) ''BLC1'' [] [])) =
     [Some ''generated-key'', Some ''generated-key'', Some ''generated-key'']"
  proof -
    obtain req ro where rq: "BlockService_Disable_request env0 Background (block_service (scripted [Failed ''reset'', unavailable, ok ''{data}''])) ''BLC1'' [] = Inr (req, ro)" and ro: "retries ro = 3"
      by (simp add: build_defs)
    have run: "snd (BlockService_Disable env0 (dec_ok block0) Background (block_service (scripted [Failed ''reset'', unavailable, ok ''{data}''])) ''BLC1'' [] []) = [req, req, req]"
      using rq ro by (simp add: BlockService_Disable_def eval_defs dec_ok_def block_service_def webhook_service_def)
    have "Header_Get env0 req ''Idempotency-Key'' = Some (NewIdempotencyKey env0)"
      by (rule idempotency_key_generated_and_reused
              [THEN conjunct2, THEN conjunct1, THEN mp, OF conjI [OF ao conjI [OF ik rq]],
               THEN conjunct2, THEN conjunct2, THEN conjunct1, THEN mp]) simp
    then show ?thesis using run by (simp add: env0_def)
  qed
  have w2: "map (\<lambda>r. Header_Get env0 r ''Idempotency-Key'') (snd (BlockService_Enable env0 (dec_ok block0) Background (block_service (scripted [Failed ''reset'', unavailable, ok ''{data}''])) ''BLC1'' [] [])) =
     [Some ''generated-key'', Some ''generated-key'', Some ''generated-key'']"
  proof -
    obtain req ro where rq: "BlockService_Enable_request env0 Background (block_service (scripted [Failed ''reset'', unavailable, ok ''{data}''])) ''BLC1'' [] = Inr (req, ro)" and ro: "retries ro = 3"
      by (simp add: build_defs)
    have run: "snd (BlockService_Enable env0 (dec_ok block0) Background (block_service (scripted [Failed ''reset'', unavailable, ok ''{data}''])) ''BLC1'' [] []) = [req, req, req]"
      using rq ro by (simp add: BlockService_Enable_def eval_defs dec_ok_def block_service_def webhook_service_def)
    have "Header_Get env0 req ''Idempotency-Key'' = Some (NewIdempotencyKey env0)"
      by (rule idempotency_key_generated_and_reused
              [THEN conjunct2, THEN conjunct2, THEN conjunct1, THEN mp, OF conjI [OF ao conjI [OF ik rq]],
               THEN conjunct2, THEN conjunct2, THEN conjunct1, THEN mp]) simp
    then show ?thesis using run by (simp add: env0_def)
  qed
  have w3: "map (\<lambda>r. Header_Get env0 r ''Idempotency-Key'') (snd (BlockService_BlockByRef env0 json0 (dec_ok byrefres0) Background (block_service (scripted [Failed ''reset'', unavailable, ok ''{data}''])) byref0 [] [])) =
     [Some ''generated-key'', Some ''generated-key'', Some ''generated-key'']"
  proof -
    obtain req ro where rq: "BlockService_BlockByRef_request env0 json0 Background (block_service (scripted [Failed ''reset'', unavailable, ok ''{data}''])) byref0 [] = Inr (req, ro)" and ro: "retries ro = 3"
      by (simp add: build_defs)
    have run: "snd (BlockService_BlockByRef env0 json0 (dec_ok byrefres0) Background (block_service (scripted [Failed ''reset'', unavailable, ok ''{data}''])) byref0 [] []) = [req, req, req]"
      using rq ro by (simp add: BlockService_BlockByRef_def eval_defs dec_ok_def block_service_def webhook_service_def)
    have "Header_Get env0 req ''Idempotency-Key'' = Some (NewIdempotencyKey env0)"
      by (rule idempotency_key_generated_and_reused
              [THEN conjunct2, THEN conjunct2, THEN conjunct2, THEN conjunct1, THEN mp, OF conjI [OF ao conjI [OF ik rq]],
               THEN conjunct2, THEN conjunct2, THEN conjunct1, THEN mp]) simp
    then show ?thesis using run by (simp add: env0_def)
  qed
  have w4: "map (\<lambda>r. Header_Get env0 r ''Idempotency-Key'') (snd (WebhookService_Retry env0 (dec_ok webhook0) Background (webhook_service (scripted [Failed ''reset'', unavailable, ok ''{data}''])) ''WB1'' [] [])) =
     [Some ''generated-key'', Some ''generated-key'', Some ''generated-key'']"
  proof -
    obtain req ro where rq: "WebhookService_Retry_request env0 Background (webhook_service (scripted [Failed ''reset'', unavailable, ok ''{data}''])) ''WB1'' [] = Inr (req, ro)" and ro: "retries ro = 3"
      by (simp add: build_defs)
    have run: "snd (WebhookService_Retry env0 (dec_ok webhook0) Background (webhook_service (scripted [Failed ''reset'', unavailable, ok ''{data}''])) ''WB1'' [] []) = [req, req, req]"
      using rq ro by (simp add: WebhookService_Retry_def eval_defs dec_ok_def block_service_def webhook_service_def)
    have "Header_Get env0 req ''Idempotency-Key'' = Some (NewIdempotencyKey env0)"
      by (rule idempotency_key_generated_and_reused
              [THEN conjunct2, THEN conjunct2, THEN conjunct2, THEN conjunct2, THEN mp, OF conjI [OF ao conjI [OF ik rq]],
               THEN conjunct2, THEN conjunct2, THEN conjunct1, THEN mp]) simp
    then show ?thesis using run by (simp add: env0_def)
  qed
  show ?thesis
    by (intro conjI w0 w1 w2 w3 w4)
qed


text \<open>
  Claim C8. The claim fails. With a context that is already cancelled and a client that honours
  the context of the request it is handed, every request still carries the background
  context: the call is not aborted, and after a status 503 all three attempts are made.
\<close>

theorem cancelled_context_is_not_honoured:
  "fst (BlockService_Create env0 json0 dec0 (Cancelable True)
          (block_service (ctx_aware unavailable)) create0 [] []) =
     (None, Some (HTTPStatusError 503 [])) \<and>
   map Ctx (snd (BlockService_Create env0 json0 dec0 (Cancelable True)
                   (block_service (ctx_aware unavailable)) create0 [] [])) =
     [Background, Background, Background] \<and>
   fst (WebhookService_Get env0 (dec_ok webhook0) (Cancelable True)
          (webhook_service (ctx_aware (ok ''{data}''))) ''WB1'' [] []) =
     (Some webhook0, None) \<and>
   map Ctx (snd (WebhookService_Get env0 (dec_ok webhook0) (Cancelable True)
                   (webhook_service (ctx_aware (ok ''{data}''))) ''WB1'' [] [])) =
     [Background] \<and>
   fst (BlockListPagingIterator_Value env0 query_block dec0 (Cancelable True)
          (biter (ctx_aware unavailable) [] None) []) =
     (None, Some (HTTPStatusError 503 [])) \<and>
   map Ctx (snd (snd (BlockListPagingIterator_Value env0 query_block dec0 (Cancelable True)
                        (biter (ctx_aware unavailable) [] None) []))) =
     [Background, Background, Background]"
  by (simp add: BlockService_Create_def WebhookService_Get_def BlockListPagingIterator_Value_def
        BlockListPagingIterator_Next_def biter_def build_defs eval_defs dec_ok_def
        ctx_aware_def header_defs)


text \<open>
  Claim C9. For every paginator and every context, \<open>Value\<close> leaves the stored list parameters
  and the service of the paginator as they are, and a call that returns an error leaves the
  whole paginator, its cursor and its cached response among the rest, as it was.
\<close>

theorem value_error_keeps_state:
  "BlockListPagingIterator.params (fst (snd (BlockListPagingIterator_Value env qvB decL ctx c sent))) =
     BlockListPagingIterator.params c \<and>
   BlockListPagingIterator.service (fst (snd (BlockListPagingIterator_Value env qvB decL ctx c sent))) =
     BlockListPagingIterator.service c \<and>
   (snd (fst (BlockListPagingIterator_Value env qvB decL ctx c sent)) \<noteq> None \<longrightarrow>
      fst (snd (BlockListPagingIterator_Value env qvB decL ctx c sent)) = c) \<and>
   WebhookListPagingIterator.params (fst (snd (WebhookListPagingIterator_Value env qvW decWL ctx w sent))) =
     WebhookListPagingIterator.params w \<and>
   WebhookListPagingIterator.service (fst (snd (WebhookListPagingIterator_Value env qvW decWL ctx w sent))) =
     WebhookListPagingIterator.service w \<and>
   (snd (fst (WebhookListPagingIterator_Value env qvW decWL ctx w sent)) \<noteq> None \<longrightarrow>
      fst (snd (WebhookListPagingIterator_Value env qvW decWL ctx w sent)) = w)"
  by (simp add: BlockListPagingIterator_Value_def WebhookListPagingIterator_Value_def
           split: sum.splits prod.splits option.splits)

text \<open>
  Witness for C9. A paginator with cursor \<open>A\<close> whose three attempts all receive status 503, and one
  whose response has neither an error nor a page.
\<close>

theorem value_error_keeps_state_witness:
  "snd (fst (BlockListPagingIterator_Value env0 query_block dec0 Background
               (biter (scripted [unavailable, unavailable, unavailable]) ''A'' (Some (bpage ''A''))) []))
     = Some (HTTPStatusError 503 []) \<and>
   fst (snd (BlockListPagingIterator_Value env0 query_block dec0 Background
               (biter (scripted [unavailable, unavailable, unavailable]) ''A'' (Some (bpage ''A''))) []))
     = biter (scripted [unavailable, unavailable, unavailable]) ''A'' (Some (bpage ''A'')) \<and>
   snd (fst (WebhookListPagingIterator_Value env0 query_webhook dec0 Background
               (witer (scripted [ok ''{}'']) ''A'' (Some (wpage ''A''))) []))
     = Some MissingResult \<and>
   fst (snd (WebhookListPagingIterator_Value env0 query_webhook dec0 Background
               (witer (scripted [ok ''{}'']) ''A'' (Some (wpage ''A''))) []))
     = witer (scripted [ok ''{}'']) ''A'' (Some (wpage ''A''))"
proof -
  let ?c = "biter (scripted [unavailable, unavailable, unavailable]) ''A'' (Some (bpage ''A''))"
  let ?w = "witer (scripted [ok ''{}'']) ''A'' (Some (wpage ''A''))"
  have b: "snd (fst (BlockListPagingIterator_Value env0 query_block dec0 Background ?c []))
             = Some (HTTPStatusError 503 [])"
    by (simp add: BlockListPagingIterator_Value_def BlockListPagingIterator_Next_def
          biter_def build_defs eval_defs)
  have w: "snd (fst (WebhookListPagingIterator_Value env0 query_webhook dec0 Background ?w []))
             = Some MissingResult"
    by (simp add: WebhookListPagingIterator_Value_def WebhookListPagingIterator_Next_def
          witer_def build_defs eval_defs)
  from value_error_keeps_state [of env0 query_block dec0 Background ?c "[]" query_webhook dec0 ?w]
    b w show ?thesis by simp
qed


text \<open>
  Claim C10. \<open>All\<close> only builds the paginator (it has no access to the client): the cursor is
  empty and the cached response nil, so \<open>Next\<close> is true. The first \<open>Value\<close> behaves as if
  \<open>After\<close> of the given parameters were empty: the query of its request encodes the
  parameters with \<open>After\<close> replaced by the empty cursor.
\<close>

theorem all_is_fresh:
  "BlockListPagingIterator.cursor (BlockService_All ctx0 s p) = [] \<and>
   BlockListPagingIterator.response (BlockService_All ctx0 s p) = None \<and>
   BlockListPagingIterator_Next (BlockService_All ctx0 s p) \<and>
   BlockListPagingIterator_Value env qvB decL ctx (BlockService_All ctx0 s p) sent =
     (case BlockListPagingIterator_Value env qvB decL ctx
             (BlockService_All ctx0 s (p\<lparr>BlockListParams.After := []\<rparr>)) sent of
        (r, c, sent') \<Rightarrow> (r, c\<lparr>BlockListPagingIterator.params := p\<rparr>, sent')) \<and>
   (BlockListPagingIterator_Value_request env qvB ctx (BlockService_All ctx0 s p) = Inr req \<longrightarrow>
      (\<exists>uri v. url_Parse env (Sprintf env (BlockService.endpoint s @ ''/blocks'') []) = Inr uri \<and>
               qvB (p\<lparr>BlockListParams.After := []\<rparr>) = Inr v \<and>
               URL req = URL_String (uri\<lparr>RawQuery := v\<rparr>))) \<and>
   WebhookListPagingIterator.cursor (WebhookService_All ctx0 w pw) = [] \<and>
   WebhookListPagingIterator.response (WebhookService_All ctx0 w pw) = None \<and>
   WebhookListPagingIterator_Next (WebhookService_All ctx0 w pw) \<and>
   WebhookListPagingIterator_Value env qvW decWL ctx (WebhookService_All ctx0 w pw) sent =
     (case WebhookListPagingIterator_Value env qvW decWL ctx
             (WebhookService_All ctx0 w (pw\<lparr>WebhookListParams.After := []\<rparr>)) sent of
        (r, c, sent') \<Rightarrow> (r, c\<lparr>WebhookListPagingIterator.params := pw\<rparr>, sent')) \<and>
   (WebhookListPagingIterator_Value_request env qvW ctx (WebhookService_All ctx0 w pw) = Inr wreq \<longrightarrow>
      (\<exists>uri v. url_Parse env (Sprintf env (WebhookService.endpoint w @ ''/webhooks'') []) = Inr uri \<and>
               qvW (pw\<lparr>WebhookListParams.After := []\<rparr>) = Inr v \<and>
               URL wreq = URL_String (uri\<lparr>RawQuery := v\<rparr>)))"
  apply (intro conjI impI)
           apply (simp_all add: BlockService_All_def WebhookService_All_def
             BlockListPagingIterator_Next_def WebhookListPagingIterator_Next_def)
     apply (simp add: BlockListPagingIterator_Value_def BlockListPagingIterator_Next_def
             BlockListPagingIterator_Value_request_def
           split: sum.splits prod.splits option.splits)
    apply (auto simp: BlockListPagingIterator_Value_request_def http_NewRequest_def Header_Set_def
             Let_def split: sum.splits option.splits)[1]
   apply (simp add: WebhookListPagingIterator_Value_def WebhookListPagingIterator_Next_def
             WebhookListPagingIterator_Value_request_def
           split: sum.splits prod.splits option.splits)
  apply (auto simp: WebhookListPagingIterator_Value_request_def http_NewRequest_def Header_Set_def
             Let_def split: sum.splits option.splits)[1]
  done

text \<open>
  Witness for C10. Parameters with the stale cursor \<open>stale\<close>: the URL of the first request has no
  \<open>after\<close>.
\<close>

theorem all_is_fresh_witness:
  "(case BlockListPagingIterator_Value_request env0 query_block Background
           (BlockService_All Background (block_service (scripted [])) (blist0 ''stale'')) of
      Inl e \<Rightarrow> False
    | Inr req \<Rightarrow> URL req = ''https://api.example/blocks'') \<and>
   (case WebhookListPagingIterator_Value_request env0 query_webhook Background
           (WebhookService_All Background (webhook_service (scripted [])) (wlist0 ''stale'')
              :: unit WebhookListPagingIterator) of
      Inl e \<Rightarrow> False
    | Inr req \<Rightarrow> URL req = ''https://api.example/webhooks'')"
proof -
  let ?b = "BlockService_All Background (block_service (scripted [])) (blist0 ''stale'')"
  let ?w = "WebhookService_All Background (webhook_service (scripted [])) (wlist0 ''stale'')
              :: unit WebhookListPagingIterator"
  obtain req where rq: "BlockListPagingIterator_Value_request env0 query_block Background ?b = Inr req"
    by (simp add: build_defs)
  obtain wreq where wrq:
    "WebhookListPagingIterator_Value_request env0 query_webhook Background ?w = Inr wreq"
    by (simp add: build_defs)
  from all_is_fresh [THEN conjunct2, THEN conjunct2, THEN conjunct2, THEN conjunct2,
      THEN conjunct1, THEN mp, OF rq]
  have b: "URL req = ''https://api.example/blocks''"
    by (auto simp: env0_def sprintf0_def block_service_def query_block_def blist0_def
          URL_String_def)
  from all_is_fresh [THEN conjunct2, THEN conjunct2, THEN conjunct2, THEN conjunct2,
      THEN conjunct2, THEN conjunct2, THEN conjunct2, THEN conjunct2, THEN conjunct2,
      THEN mp, OF wrq]
  have w: "URL wreq = ''https://api.example/webhooks''"
    by (auto simp: env0_def sprintf0_def webhook_service_def query_webhook_def wlist0_def
          URL_String_def)
  show ?thesis using rq wrq b w by simp
qed

end
